theory Spec2Isabelle
  imports Complex_Main
begin

section \<open>Tensors\<close>

text \<open>
  A rank-2 NumPy/Keras array is a list of rows, a rank-1 array a list.  In this section
  and in the object store the entries are real numbers: the algorithm, the shapes, the
  errors and the frame of the operations do not depend on the arithmetic.  Every statement
  about the numbers the layer computes (the round trip of the conversion, the column norms,
  the zero magnitude, the floor of the divisor) is made on the values of the floating-point
  dtype, with its infinities and NaN, in the section on overflow.
\<close>

type_synonym matrix = "real list list"
type_synonym vector = "real list"

definition ncols :: "'a list list \<Rightarrow> nat" where
  "ncols M = (case M of [] \<Rightarrow> 0 | r # _ \<Rightarrow> length r)"

text \<open>\<open>M.shape\<close> of a rank-2 array, as a pair of Python ints.\<close>

definition shape :: "matrix \<Rightarrow> int \<times> int" where
  "shape M = (int (length M), int (ncols M))"

text \<open>\<open>is_matrix r c M\<close>: the list of rows is rectangular with \<open>r\<close> rows and \<open>c\<close> columns.\<close>

definition is_matrix :: "nat \<Rightarrow> nat \<Rightarrow> 'a list list \<Rightarrow> bool" where
  "is_matrix r c M \<longleftrightarrow> length M = r \<and> list_all (\<lambda>row. length row = c) M"

text \<open>\<open>ops.matmul(A, B)\<close>: entry \<open>(i, j)\<close> is \<open>\<Sum>k. A[i][k] * B[k][j]\<close>.\<close>

definition matmul :: "matrix \<Rightarrow> matrix \<Rightarrow> matrix" where
  "matmul A B =
     map (\<lambda>row. map (\<lambda>j. sum_list (map (\<lambda>k. row ! k * (B ! k) ! j) [0..<length B]))
                     [0..<ncols B]) A"

text \<open>\<open>M * s\<close> with a Python scalar \<open>s\<close>.\<close>

definition scale :: "matrix \<Rightarrow> real \<Rightarrow> matrix" where
  "scale M s = map (map (\<lambda>x. x * s)) M"

text \<open>\<open>M + N\<close> on arrays of one shape.\<close>

definition add :: "matrix \<Rightarrow> matrix \<Rightarrow> matrix" where
  "add M N = map2 (map2 (+)) M N"

text \<open>\<open>ops.square\<close>, \<open>ops.sqrt\<close> and \<open>ops.maximum(M, c)\<close> work entry by entry.\<close>

definition square :: "matrix \<Rightarrow> matrix" where
  "square M = map (map (\<lambda>x. x * x)) M"

definition sqrt_t :: "matrix \<Rightarrow> matrix" where
  "sqrt_t M = map (map sqrt) M"

definition maximum :: "matrix \<Rightarrow> real \<Rightarrow> matrix" where
  "maximum M c = map (map (\<lambda>x. max x c)) M"

text \<open>\<open>ops.sum(M, axis=0, keepdims=True)\<close>: the column sums, as an array of one row.\<close>

definition sum_axis0_keepdims :: "matrix \<Rightarrow> matrix" where
  "sum_axis0_keepdims M = [map (\<lambda>j. sum_list (map (\<lambda>row. row ! j) M)) [0..<ncols M]]"

text \<open>\<open>ops.expand_dims(v, axis=0)\<close>: a vector as an array of one row.\<close>

definition expand_dims0 :: "vector \<Rightarrow> matrix" where
  "expand_dims0 v = [v]"

text \<open>
  \<open>M / N\<close> and \<open>M * N\<close> where \<open>N\<close> has one row: broadcasting repeats that row against every
  row of \<open>M\<close>.  With any other \<open>N\<close> the operation is entry by entry.
\<close>

definition broadcast :: "(real \<Rightarrow> real \<Rightarrow> real) \<Rightarrow> matrix \<Rightarrow> matrix \<Rightarrow> matrix" where
  "broadcast f M N =
     (case N of [v] \<Rightarrow> map (\<lambda>row. map2 f row v) M | _ \<Rightarrow> map2 (map2 f) M N)"

definition divide_t :: "matrix \<Rightarrow> matrix \<Rightarrow> matrix" where
  "divide_t M N = broadcast (\<lambda>x y. x / y) M N"

definition multiply_t :: "matrix \<Rightarrow> matrix \<Rightarrow> matrix" where
  "multiply_t M N = broadcast (\<lambda>x y. x * y) M N"

text \<open>\<open>np.linalg.norm(M, axis=0)\<close>: the Euclidean norm of every column.\<close>

definition linalg_norm_axis0 :: "matrix \<Rightarrow> vector" where
  "linalg_norm_axis0 M =
     map (\<lambda>j. sqrt (sum_list (map (\<lambda>row. (row ! j) * (row ! j)) M))) [0..<ncols M]"

text \<open>The literal \<open>1e-8\<close>.\<close>

definition eps :: real where
  "eps = 1 / 10 ^ 8"

section \<open>The effective embedding matrix\<close>

text \<open>
  The body of \<open>DoRAEmbedding._get_effective_embeddings\<close> on the values of the four weights
  and \<open>self.scaling\<close>, one binding for each statement of the source.
\<close>

definition effective_embedding_matrix :: "matrix \<Rightarrow> matrix \<Rightarrow> matrix \<Rightarrow> vector \<Rightarrow> real \<Rightarrow> matrix" where
  "effective_embedding_matrix embeddings lora_a lora_b magnitude scaling =
     (let lora_adaptation = scale (matmul lora_a lora_b) scaling;
          combined_embeddings = add embeddings lora_adaptation;
          column_norms = sqrt_t (sum_axis0_keepdims (square combined_embeddings));
          column_norms = maximum column_norms eps;
          normalized_embeddings = divide_t combined_embeddings column_norms;
          dora_embeddings = multiply_t normalized_embeddings (expand_dims0 magnitude)
      in dora_embeddings)"

text \<open>
  The same quantities with the names of the specification: \<open>delta\<close>, \<open>combined\<close>, \<open>norm\<close>
  and the entries of \<open>E\<close>, by index.  \<open>R\<close> is the number of rows of \<open>W0\<close>, \<open>C\<close> the length of
  \<open>m\<close>, the rank the number of rows of \<open>B\<close>.
\<close>

definition spec_delta :: "matrix \<Rightarrow> matrix \<Rightarrow> real \<Rightarrow> nat \<Rightarrow> nat \<Rightarrow> real" where
  "spec_delta A B s i j = (\<Sum>k = 0..<length B. (A ! i) ! k * (B ! k) ! j) * s"

definition spec_combined :: "matrix \<Rightarrow> matrix \<Rightarrow> matrix \<Rightarrow> real \<Rightarrow> nat \<Rightarrow> nat \<Rightarrow> real" where
  "spec_combined W0 A B s i j = (W0 ! i) ! j + spec_delta A B s i j"

definition spec_raw_norm :: "matrix \<Rightarrow> matrix \<Rightarrow> matrix \<Rightarrow> real \<Rightarrow> nat \<Rightarrow> real" where
  "spec_raw_norm W0 A B s j = sqrt (\<Sum>i = 0..<length W0. (spec_combined W0 A B s i j)\<^sup>2)"

definition spec_norm :: "matrix \<Rightarrow> matrix \<Rightarrow> matrix \<Rightarrow> real \<Rightarrow> nat \<Rightarrow> real" where
  "spec_norm W0 A B s j = max (spec_raw_norm W0 A B s j) (1 / 10 ^ 8)"

definition spec_effective_matrix :: "matrix \<Rightarrow> matrix \<Rightarrow> matrix \<Rightarrow> vector \<Rightarrow> real \<Rightarrow> matrix" where
  "spec_effective_matrix W0 A B m s =
     map (\<lambda>i. map (\<lambda>j. spec_combined W0 A B s i j / spec_norm W0 A B s j * m ! j)
                   [0..<length m])
         [0..<length W0]"

section \<open>Overflow\<close>

text \<open>
  Exact arithmetic describes the floating-point computation as long as no operation
  overflows.  For what happens when one does, the values are the finite numbers, the two
  infinities and NaN, and an operation whose exact result has magnitude \<open>T\<close> or more
  returns an infinity; \<open>T\<close> is the overflow threshold of the dtype.  Rounding inside the
  range and signed zeros are left out.  The special values combine as in IEEE 754.
\<close>

datatype fp = Fin real | PInf | NInf | NaN

type_synonym fmatrix = "fp list list"

definition round_fp :: "real \<Rightarrow> real \<Rightarrow> fp" where
  "round_fp T r = (if T \<le> r then PInf else if r \<le> - T then NInf else Fin r)"

text \<open>The threshold of \<open>float32\<close>, the default dtype of Keras: the largest finite value plus half a unit in the last place.\<close>

definition float32_overflow :: real where
  "float32_overflow = 2 ^ 128 - 2 ^ 103"

fun fp_add :: "real \<Rightarrow> fp \<Rightarrow> fp \<Rightarrow> fp" where
  "fp_add T (Fin a) (Fin b) = round_fp T (a + b)"
| "fp_add T NaN y = NaN"
| "fp_add T x NaN = NaN"
| "fp_add T PInf NInf = NaN"
| "fp_add T NInf PInf = NaN"
| "fp_add T PInf y = PInf"
| "fp_add T x PInf = PInf"
| "fp_add T NInf y = NInf"
| "fp_add T x NInf = NInf"

fun fp_mul :: "real \<Rightarrow> fp \<Rightarrow> fp \<Rightarrow> fp" where
  "fp_mul T (Fin a) (Fin b) = round_fp T (a * b)"
| "fp_mul T NaN y = NaN"
| "fp_mul T x NaN = NaN"
| "fp_mul T (Fin a) PInf = (if a = 0 then NaN else if 0 < a then PInf else NInf)"
| "fp_mul T (Fin a) NInf = (if a = 0 then NaN else if 0 < a then NInf else PInf)"
| "fp_mul T PInf (Fin b) = (if b = 0 then NaN else if 0 < b then PInf else NInf)"
| "fp_mul T NInf (Fin b) = (if b = 0 then NaN else if 0 < b then NInf else PInf)"
| "fp_mul T PInf PInf = PInf"
| "fp_mul T NInf NInf = PInf"
| "fp_mul T PInf NInf = NInf"
| "fp_mul T NInf PInf = NInf"

fun fp_div :: "real \<Rightarrow> fp \<Rightarrow> fp \<Rightarrow> fp" where
  "fp_div T (Fin a) (Fin b) =
     (if b = 0 then (if a = 0 then NaN else if 0 < a then PInf else NInf)
      else round_fp T (a / b))"
| "fp_div T NaN y = NaN"
| "fp_div T x NaN = NaN"
| "fp_div T (Fin a) PInf = Fin 0"
| "fp_div T (Fin a) NInf = Fin 0"
| "fp_div T PInf (Fin b) = (if 0 \<le> b then PInf else NInf)"
| "fp_div T NInf (Fin b) = (if 0 \<le> b then NInf else PInf)"
| "fp_div T PInf PInf = NaN"
| "fp_div T NInf NInf = NaN"
| "fp_div T PInf NInf = NaN"
| "fp_div T NInf PInf = NaN"

fun fp_sqrt :: "fp \<Rightarrow> fp" where
  "fp_sqrt (Fin a) = (if a < 0 then NaN else Fin (sqrt a))"
| "fp_sqrt PInf = PInf"
| "fp_sqrt NInf = NaN"
| "fp_sqrt NaN = NaN"

text \<open>\<open>maximum\<close> returns NaN when one of its arguments is NaN.\<close>

fun fp_max :: "fp \<Rightarrow> fp \<Rightarrow> fp" where
  "fp_max (Fin a) (Fin b) = Fin (max a b)"
| "fp_max NaN y = NaN"
| "fp_max x NaN = NaN"
| "fp_max PInf y = PInf"
| "fp_max x PInf = PInf"
| "fp_max NInf y = y"
| "fp_max x NInf = x"

text \<open>A sum adds its terms from left to right.\<close>

definition fp_sum :: "real \<Rightarrow> fp list \<Rightarrow> fp" where
  "fp_sum T xs = foldl (fp_add T) (Fin 0) xs"

text \<open>The tensor operations of the first section on these values.\<close>

definition fp_matmul :: "real \<Rightarrow> fmatrix \<Rightarrow> fmatrix \<Rightarrow> fmatrix" where
  "fp_matmul T A B =
     map (\<lambda>row. map (\<lambda>j. fp_sum T (map (\<lambda>k. fp_mul T (row ! k) ((B ! k) ! j)) [0..<length B]))
                     [0..<ncols B]) A"

definition fp_scale :: "real \<Rightarrow> fmatrix \<Rightarrow> fp \<Rightarrow> fmatrix" where
  "fp_scale T M s = map (map (\<lambda>x. fp_mul T x s)) M"

definition fp_add_t :: "real \<Rightarrow> fmatrix \<Rightarrow> fmatrix \<Rightarrow> fmatrix" where
  "fp_add_t T M N = map2 (map2 (fp_add T)) M N"

definition fp_square :: "real \<Rightarrow> fmatrix \<Rightarrow> fmatrix" where
  "fp_square T M = map (map (\<lambda>x. fp_mul T x x)) M"

definition fp_sqrt_t :: "fmatrix \<Rightarrow> fmatrix" where
  "fp_sqrt_t M = map (map fp_sqrt) M"

definition fp_maximum :: "fmatrix \<Rightarrow> fp \<Rightarrow> fmatrix" where
  "fp_maximum M c = map (map (\<lambda>x. fp_max x c)) M"

definition fp_sum_axis0_keepdims :: "real \<Rightarrow> fmatrix \<Rightarrow> fmatrix" where
  "fp_sum_axis0_keepdims T M = [map (\<lambda>j. fp_sum T (map (\<lambda>row. row ! j) M)) [0..<ncols M]]"

definition fp_broadcast :: "(fp \<Rightarrow> fp \<Rightarrow> fp) \<Rightarrow> fmatrix \<Rightarrow> fmatrix \<Rightarrow> fmatrix" where
  "fp_broadcast f M N =
     (case N of [v] \<Rightarrow> map (\<lambda>row. map2 f row v) M | _ \<Rightarrow> map2 (map2 f) M N)"

text \<open>The body of \<open>_get_effective_embeddings\<close> once more, statement by statement.\<close>

definition fp_effective_embedding_matrix ::
  "real \<Rightarrow> fmatrix \<Rightarrow> fmatrix \<Rightarrow> fmatrix \<Rightarrow> fp list \<Rightarrow> fp \<Rightarrow> fmatrix" where
  "fp_effective_embedding_matrix T embeddings lora_a lora_b magnitude scaling =
     (let lora_adaptation = fp_scale T (fp_matmul T lora_a lora_b) scaling;
          combined_embeddings = fp_add_t T embeddings lora_adaptation;
          column_norms = fp_sqrt_t (fp_sum_axis0_keepdims T (fp_square T combined_embeddings));
          column_norms = fp_maximum column_norms (Fin eps);
          normalized_embeddings = fp_broadcast (fp_div T) combined_embeddings column_norms;
          dora_embeddings = fp_broadcast (fp_mul T) normalized_embeddings [magnitude]
      in dora_embeddings)"

text \<open>
  The values it binds to \<open>combined_embeddings\<close> and, for a combined matrix \<open>M\<close>, to
  \<open>column_norms\<close> (the divisors).
\<close>

definition fp_combined :: "real \<Rightarrow> fmatrix \<Rightarrow> fmatrix \<Rightarrow> fmatrix \<Rightarrow> fp \<Rightarrow> fmatrix" where
  "fp_combined T embeddings lora_a lora_b scaling =
     fp_add_t T embeddings (fp_scale T (fp_matmul T lora_a lora_b) scaling)"

definition fp_column_norms :: "real \<Rightarrow> fmatrix \<Rightarrow> fmatrix" where
  "fp_column_norms T M =
     fp_maximum (fp_sqrt_t (fp_sum_axis0_keepdims T (fp_square T M))) (Fin eps)"

text \<open>
  A finite value of the dtype, a matrix of finite values, a divisor that is a finite
  number at least \<open>1e-8\<close>, a divisor that is not below \<open>1e-8\<close> (it may be infinite or NaN),
  and a term of a sum of squares (a finite number at least \<open>0\<close>, or \<open>+inf\<close>).
\<close>

definition fp_finite :: "real \<Rightarrow> fp \<Rightarrow> bool" where
  "fp_finite T x = (case x of Fin r \<Rightarrow> \<bar>r\<bar> < T | _ \<Rightarrow> False)"

definition all_finite :: "real \<Rightarrow> fmatrix \<Rightarrow> bool" where
  "all_finite T M = list_all (list_all (fp_finite T)) M"

definition floored :: "fp \<Rightarrow> bool" where
  "floored d = (case d of Fin x \<Rightarrow> 1 / 10 ^ 8 \<le> x | _ \<Rightarrow> False)"

definition not_below_floor :: "fp \<Rightarrow> bool" where
  "not_below_floor d = (case d of Fin x \<Rightarrow> 1 / 10 ^ 8 \<le> x | PInf \<Rightarrow> True | NInf \<Rightarrow> False | NaN \<Rightarrow> True)"

definition nonneg_or_inf :: "fp \<Rightarrow> bool" where
  "nonneg_or_inf x = (case x of Fin q \<Rightarrow> 0 \<le> q | PInf \<Rightarrow> True | _ \<Rightarrow> False)"






section \<open>Errors, initializers and the object store\<close>

text \<open>
  Every \<open>raise\<close> of the module is a \<open>ValueError\<close>; the constructors tell the raise sites
  apart by their messages:
  \<^item> \<open>InvalidParameter\<close>: "... must be positive" in \<open>__init__\<close>;
  \<^item> \<open>InvalidArgument\<close>: "new_vocab_size (...) must be greater than current input_dim (...)";
  \<^item> \<open>NotBuilt\<close>: "Layer must be built before expanding vocabulary";
  \<^item> \<open>ShapeMismatch\<close>: "... shape ... doesn't match expected shape ...";
  \<^item> \<open>FrameworkError\<close>: an exception that no \<open>raise\<close> of the module produces: an attribute or
    tensor operation on \<open>None\<close>, the shape check inside \<open>Variable.assign\<close>, an index
    out of range in \<open>ops.take\<close>.
\<close>

datatype error = InvalidParameter | InvalidArgument | NotBuilt | ShapeMismatch | FrameworkError

text \<open>
  A Keras initializer returns a tensor of the shape it is asked for; which values a random
  one draws is arbitrary.  It is a function of the number of draws made so far, the
  requested shape and the position of the entry.
\<close>

type_synonym initializer = "nat \<Rightarrow> nat list \<Rightarrow> nat list \<Rightarrow> real"

definition zeros :: initializer where
  "zeros d shp pos = 0"

definition ones :: initializer where
  "ones d shp pos = 1"

definition init_matrix :: "initializer \<Rightarrow> nat \<Rightarrow> nat \<Rightarrow> nat \<Rightarrow> matrix" where
  "init_matrix f d r c = map (\<lambda>i. map (\<lambda>j. f d [r, c] [i, j]) [0..<c]) [0..<r]"

definition init_vector :: "initializer \<Rightarrow> nat \<Rightarrow> nat \<Rightarrow> vector" where
  "init_vector f d n = map (\<lambda>j. f d [n] [j]) [0..<n]"

text \<open>
  A \<open>DoRAEmbedding\<close> object.  The four weights are references to variables of the store,
  \<open>None\<close> until \<open>build\<close>.  The regularizers and the constraint are passed through to Keras
  and read by none of the operations below; they are left out.
\<close>

record layer =
  input_dim :: int
  output_dim :: int
  rank :: int
  alpha :: real
  mask_zero :: bool
  input_length :: "int option"
  sparse :: bool
  embeddings_initializer :: initializer
  lora_a_initializer :: initializer
  lora_b_initializer :: initializer
  magnitude_initializer :: initializer
  layer_name :: string
  scaling :: real
  embeddings :: "nat option"
  lora_a :: "nat option"
  lora_b :: "nat option"
  magnitude :: "nat option"
  built :: bool

text \<open>
  The store: the layer objects, the rank-2 and the rank-1 variables, each addressed by
  its index, and the number of initializer draws made so far.
\<close>

record store =
  layers :: "layer list"
  mats :: "matrix list"
  vecs :: "vector list"
  draws :: nat

text \<open>
  An operation that can raise returns \<open>Inl (e, st)\<close>, the error and the store as it is
  when the exception leaves the operation, or \<open>Inr\<close> its result.
\<close>

definition then_do ::
  "(error \<times> store) + 'a \<Rightarrow> ('a \<Rightarrow> (error \<times> store) + 'b) \<Rightarrow> (error \<times> store) + 'b" where
  "then_do m f = (case m of Inl x \<Rightarrow> Inl x | Inr a \<Rightarrow> f a)"

section \<open>\<open>DoRAEmbedding\<close>\<close>

definition DoRAEmbedding_init ::
  "int \<Rightarrow> int \<Rightarrow> int \<Rightarrow> real \<Rightarrow> initializer \<Rightarrow> initializer \<Rightarrow> initializer \<Rightarrow> initializer \<Rightarrow>
   bool \<Rightarrow> int option \<Rightarrow> bool \<Rightarrow> string \<Rightarrow> error + layer" where
  "DoRAEmbedding_init input_dim' output_dim' rank' alpha' embeddings_initializer'
       lora_a_initializer' lora_b_initializer' magnitude_initializer' mask_zero' input_length'
       sparse' name' =
     (if input_dim' \<le> 0 then Inl InvalidParameter
      else if output_dim' \<le> 0 then Inl InvalidParameter
      else if rank' \<le> 0 then Inl InvalidParameter
      else if alpha' \<le> 0 then Inl InvalidParameter
      else Inr \<lparr>input_dim = input_dim', output_dim = output_dim', rank = rank', alpha = alpha',
                mask_zero = mask_zero', input_length = input_length', sparse = sparse',
                embeddings_initializer = embeddings_initializer',
                lora_a_initializer = lora_a_initializer',
                lora_b_initializer = lora_b_initializer',
                magnitude_initializer = magnitude_initializer',
                layer_name = name',
                scaling = alpha' / real_of_int rank',
                embeddings = None, lora_a = None, lora_b = None, magnitude = None,
                built = False\<rparr>)"

text \<open>The new object enters the store; its reference is returned.\<close>

definition new_layer :: "store \<Rightarrow> layer \<Rightarrow> nat \<times> store" where
  "new_layer st L = (length (layers st), st\<lparr>layers := layers st @ [L]\<rparr>)"

text \<open>\<open>add_weight\<close>: a new variable holding what the initializer returns for the shape.\<close>

definition add_weight_matrix :: "store \<Rightarrow> initializer \<Rightarrow> nat \<Rightarrow> nat \<Rightarrow> nat \<times> store" where
  "add_weight_matrix st f r c =
     (length (mats st),
      st\<lparr>mats := mats st @ [init_matrix f (draws st) r c], draws := Suc (draws st)\<rparr>)"

definition add_weight_vector :: "store \<Rightarrow> initializer \<Rightarrow> nat \<Rightarrow> nat \<times> store" where
  "add_weight_vector st f n =
     (length (vecs st),
      st\<lparr>vecs := vecs st @ [init_vector f (draws st) n], draws := Suc (draws st)\<rparr>)"

definition build :: "store \<Rightarrow> nat \<Rightarrow> store" where
  "build st self =
     (let L = layers st ! self;
          (e, st) = add_weight_matrix st (embeddings_initializer L)
                      (nat (input_dim L)) (nat (output_dim L));
          (a, st) = add_weight_matrix st (lora_a_initializer L)
                      (nat (input_dim L)) (nat (rank L));
          (b, st) = add_weight_matrix st (lora_b_initializer L)
                      (nat (rank L)) (nat (output_dim L));
          (g, st) = add_weight_vector st (magnitude_initializer L) (nat (output_dim L))
      in st\<lparr>layers := (layers st)[self := L\<lparr>embeddings := Some e, lora_a := Some a,
                                              lora_b := Some b, magnitude := Some g,
                                              built := True\<rparr>]\<rparr>)"

text \<open>
  \<open>v.numpy()\<close> and \<open>v.assign(value)\<close> on a weight attribute.  On \<open>None\<close> both are an
  \<open>AttributeError\<close>; \<open>assign\<close> refuses a value of another shape.
\<close>

definition numpy_matrix :: "store \<Rightarrow> nat option \<Rightarrow> (error \<times> store) + matrix" where
  "numpy_matrix st v = (case v of None \<Rightarrow> Inl (FrameworkError, st) | Some r \<Rightarrow> Inr (mats st ! r))"

definition numpy_vector :: "store \<Rightarrow> nat option \<Rightarrow> (error \<times> store) + vector" where
  "numpy_vector st v = (case v of None \<Rightarrow> Inl (FrameworkError, st) | Some r \<Rightarrow> Inr (vecs st ! r))"

definition assign_matrix :: "store \<Rightarrow> nat option \<Rightarrow> matrix \<Rightarrow> (error \<times> store) + store" where
  "assign_matrix st v M =
     (case v of
        None \<Rightarrow> Inl (FrameworkError, st)
      | Some r \<Rightarrow>
          if shape M \<noteq> shape (mats st ! r) then Inl (FrameworkError, st)
          else Inr (st\<lparr>mats := (mats st)[r := M]\<rparr>))"

definition assign_vector :: "store \<Rightarrow> nat option \<Rightarrow> vector \<Rightarrow> (error \<times> store) + store" where
  "assign_vector st v x =
     (case v of
        None \<Rightarrow> Inl (FrameworkError, st)
      | Some r \<Rightarrow>
          if length x \<noteq> length (vecs st ! r) then Inl (FrameworkError, st)
          else Inr (st\<lparr>vecs := (vecs st)[r := x]\<rparr>))"

text \<open>
  \<open>_get_effective_embeddings\<close>: the weights are read in the order the source uses them,
  and the first that is \<open>None\<close> makes the tensor operation fail.
\<close>

definition get_effective_embeddings_impl :: "store \<Rightarrow> nat \<Rightarrow> error + matrix" where
  "get_effective_embeddings_impl st self =
     (let L = layers st ! self in
      case lora_a L of None \<Rightarrow> Inl FrameworkError | Some a \<Rightarrow>
      case lora_b L of None \<Rightarrow> Inl FrameworkError | Some b \<Rightarrow>
      case embeddings L of None \<Rightarrow> Inl FrameworkError | Some e \<Rightarrow>
      case magnitude L of None \<Rightarrow> Inl FrameworkError | Some g \<Rightarrow>
        Inr (effective_embedding_matrix (mats st ! e) (mats st ! a) (mats st ! b) (vecs st ! g)
               (scaling L)))"

definition get_effective_embeddings :: "store \<Rightarrow> nat \<Rightarrow> error + matrix" where
  "get_effective_embeddings st self = get_effective_embeddings_impl st self"

text \<open>\<open>merge_weights\<close> returns the dictionary \<open>{"embeddings": ...}\<close>.\<close>

definition merge_weights :: "store \<Rightarrow> nat \<Rightarrow> error + (string \<times> matrix) list" where
  "merge_weights st self =
     (case get_effective_embeddings_impl st self of
        Inl e \<Rightarrow> Inl e
      | Inr E \<Rightarrow> Inr [(''embeddings'', E)])"

text \<open>
  The index tensor of \<open>call\<close>, a batch of sequences, with its dtype.  A dtype other than
  \<open>int32\<close> and \<open>int64\<close> is cast to \<open>int32\<close>, which drops the fraction of a float.
\<close>

datatype index_tensor = Int32 "int list list" | Int64 "int list list" | Float32 "real list list"

definition truncate :: "real \<Rightarrow> int" where
  "truncate x = (if 0 \<le> x then \<lfloor>x\<rfloor> else \<lceil>x\<rceil>)"

definition as_indices :: "index_tensor \<Rightarrow> int list list" where
  "as_indices inputs =
     (case inputs of Int32 xs \<Rightarrow> xs | Int64 xs \<Rightarrow> xs | Float32 xs \<Rightarrow> map (map truncate) xs)"

text \<open>
  \<open>ops.take(E, inputs, axis=0)\<close>: the row of \<open>E\<close> for every index.  A negative index
  \<open>i\<close> with \<open>- len(E) \<le> i\<close> counts from the end, it is the row \<open>i + len(E)\<close>.  An index
  outside \<open>- len(E) \<le> i < len(E)\<close> is reported as an error here; what a backend does
  with it is its own matter.
\<close>

definition take_axis0 :: "matrix \<Rightarrow> int list list \<Rightarrow> error + real list list list" where
  "take_axis0 E inputs =
     (if list_all (list_all (\<lambda>i. - int (length E) \<le> i \<and> i < int (length E))) inputs
      then Inr (map (map (\<lambda>i. E ! nat (if i < 0 then i + int (length E) else i))) inputs)
      else Inl FrameworkError)"

definition call :: "store \<Rightarrow> nat \<Rightarrow> index_tensor \<Rightarrow> error + real list list list" where
  "call st self inputs =
     (let inputs = as_indices inputs in
      case get_effective_embeddings_impl st self of
        Inl e \<Rightarrow> Inl e
      | Inr effective_embeddings \<Rightarrow>
          if sparse (layers st ! self)
          then take_axis0 effective_embeddings inputs
          else take_axis0 effective_embeddings inputs)"

definition load_pretrained_embeddings :: "store \<Rightarrow> nat \<Rightarrow> matrix \<Rightarrow> (error \<times> store) + store" where
  "load_pretrained_embeddings st self pretrained_embeddings =
     (let L = layers st ! self in
      case embeddings L of
        None \<Rightarrow> Inl (FrameworkError, st)
      | Some e \<Rightarrow>
          if shape pretrained_embeddings \<noteq> shape (mats st ! e) then Inl (ShapeMismatch, st)
          else
            then_do (assign_matrix st (embeddings L) pretrained_embeddings) (\<lambda>st.
            let column_norms = linalg_norm_axis0 pretrained_embeddings
            in assign_vector st (magnitude L) column_norms))"

text \<open>
  \<open>expand_vocabulary\<close>.  The block of new rows is the caller's or drawn from the
  embeddings initializer; the new rows of \<open>lora_a\<close> are always drawn.
\<close>

definition new_token_block ::
  "store \<Rightarrow> layer \<Rightarrow> int \<Rightarrow> matrix option \<Rightarrow> (error \<times> store) + matrix \<times> store" where
  "new_token_block st L num_new_tokens new_token_embeddings =
     (case new_token_embeddings of
        None \<Rightarrow>
          Inr (init_matrix (embeddings_initializer L) (draws st)
                 (nat num_new_tokens) (nat (output_dim L)),
               st\<lparr>draws := Suc (draws st)\<rparr>)
      | Some T \<Rightarrow>
          if shape T \<noteq> (num_new_tokens, output_dim L) then Inl (ShapeMismatch, st)
          else Inr (T, st))"

definition expand_vocabulary ::
  "store \<Rightarrow> nat \<Rightarrow> int \<Rightarrow> matrix option \<Rightarrow> (error \<times> store) + nat \<times> store" where
  "expand_vocabulary st self new_vocab_size new_token_embeddings =
     (let L = layers st ! self in
      if new_vocab_size \<le> input_dim L then Inl (InvalidArgument, st)
      else if \<not> built L then Inl (NotBuilt, st)
      else
        let num_new_tokens = new_vocab_size - input_dim L in
        case DoRAEmbedding_init new_vocab_size (output_dim L) (rank L) (alpha L)
               (embeddings_initializer L) (lora_a_initializer L) (lora_b_initializer L)
               (magnitude_initializer L) (mask_zero L) (input_length L) (sparse L)
               (layer_name L @ ''_expanded'') of
          Inl e \<Rightarrow> Inl (e, st)
        | Inr X \<Rightarrow>
            let (expanded_layer, st) = new_layer st X;
                st = build st expanded_layer
            in
            then_do (numpy_matrix st (embeddings L)) (\<lambda>current_embeddings.
            then_do (numpy_matrix st (lora_a L)) (\<lambda>current_lora_a.
            then_do (numpy_matrix st (lora_b L)) (\<lambda>current_lora_b.
            then_do (numpy_vector st (magnitude L)) (\<lambda>current_magnitude.
            then_do (new_token_block st L num_new_tokens new_token_embeddings)
              (\<lambda>(new_embeddings, st).
            let new_lora_a_rows = init_matrix (lora_a_initializer L) (draws st)
                                    (nat num_new_tokens) (nat (rank L));
                st = st\<lparr>draws := Suc (draws st)\<rparr>;
                expanded_embeddings = current_embeddings @ new_embeddings;
                expanded_lora_a = current_lora_a @ new_lora_a_rows;
                X = layers st ! expanded_layer
            in
            then_do (assign_matrix st (embeddings X) expanded_embeddings) (\<lambda>st.
            then_do (assign_matrix st (lora_a X) expanded_lora_a) (\<lambda>st.
            then_do (assign_matrix st (lora_b X) current_lora_b) (\<lambda>st.
            then_do (assign_vector st (magnitude X) current_magnitude) (\<lambda>st.
            Inr (expanded_layer, st)))))))))))"

section \<open>\<open>convert_embedding_to_dora\<close>\<close>

text \<open>
  What the function reads of a \<open>keras.layers.Embedding\<close>: its configuration, whether it
  is built and the variable holding its matrix.
\<close>

record embedding_layer =
  emb_input_dim :: int
  emb_output_dim :: int
  emb_embeddings_initializer :: initializer
  emb_mask_zero :: bool
  emb_input_length :: "int option"
  emb_name :: string
  emb_built :: bool
  emb_embeddings :: "nat option"

text \<open>
  The arguments the call leaves out take the defaults of \<open>__init__\<close>: \<open>"he_uniform"\<close> for
  \<open>lora_a\<close> (a random initializer, the parameter \<open>he_uniform\<close>), \<open>"zeros"\<close> for \<open>lora_b\<close>,
  \<open>"ones"\<close> for the magnitude, \<open>sparse=False\<close>.
\<close>

definition convert_embedding_to_dora ::
  "initializer \<Rightarrow> store \<Rightarrow> embedding_layer \<Rightarrow> int \<Rightarrow> real \<Rightarrow> (error \<times> store) + nat \<times> store" where
  "convert_embedding_to_dora he_uniform st embedding_layer rank' alpha' =
     (let input_length' = emb_input_length embedding_layer in
      case DoRAEmbedding_init (emb_input_dim embedding_layer) (emb_output_dim embedding_layer)
             rank' alpha' (emb_embeddings_initializer embedding_layer) he_uniform zeros ones
             (emb_mask_zero embedding_layer) input_length' False
             (emb_name embedding_layer @ ''_dora'') of
        Inl e \<Rightarrow> Inl (e, st)
      | Inr D \<Rightarrow>
          let (dora_layer, st) = new_layer st D in
          if emb_built embedding_layer then
            let st = build st dora_layer in
            then_do (numpy_matrix st (emb_embeddings embedding_layer)) (\<lambda>W.
            then_do (load_pretrained_embeddings st dora_layer W) (\<lambda>st.
            Inr (dora_layer, st)))
          else Inr (dora_layer, st))"

section \<open>Built layers\<close>

text \<open>
  The weights of a layer, read from the store, and the state \<open>build\<close> leaves a layer in:
  the configuration \<open>__init__\<close> accepted and four variables of the declared shapes.
\<close>

definition W0_of :: "store \<Rightarrow> nat \<Rightarrow> matrix" where
  "W0_of st self = mats st ! the (embeddings (layers st ! self))"

definition A_of :: "store \<Rightarrow> nat \<Rightarrow> matrix" where
  "A_of st self = mats st ! the (lora_a (layers st ! self))"

definition B_of :: "store \<Rightarrow> nat \<Rightarrow> matrix" where
  "B_of st self = mats st ! the (lora_b (layers st ! self))"

definition m_of :: "store \<Rightarrow> nat \<Rightarrow> vector" where
  "m_of st self = vecs st ! the (magnitude (layers st ! self))"

definition valid_config :: "layer \<Rightarrow> bool" where
  "valid_config L \<longleftrightarrow>
     0 < input_dim L \<and> 0 < output_dim L \<and> 0 < rank L \<and> 0 < alpha L \<and>
     scaling L = alpha L / real_of_int (rank L)"

definition built_layer :: "store \<Rightarrow> nat \<Rightarrow> bool" where
  "built_layer st self \<longleftrightarrow>
     self < length (layers st) \<and>
     (let L = layers st ! self in
      valid_config L \<and> built L \<and>
      (case embeddings L of None \<Rightarrow> False | Some e \<Rightarrow>
         e < length (mats st) \<and>
         is_matrix (nat (input_dim L)) (nat (output_dim L)) (mats st ! e)) \<and>
      (case lora_a L of None \<Rightarrow> False | Some a \<Rightarrow>
         a < length (mats st) \<and>
         is_matrix (nat (input_dim L)) (nat (rank L)) (mats st ! a)) \<and>
      (case lora_b L of None \<Rightarrow> False | Some b \<Rightarrow>
         b < length (mats st) \<and>
         is_matrix (nat (rank L)) (nat (output_dim L)) (mats st ! b)) \<and>
      (case magnitude L of None \<Rightarrow> False | Some g \<Rightarrow>
         g < length (vecs st) \<and> length (vecs st ! g) = nat (output_dim L)))"

text \<open>A layer as \<open>__init__\<close> leaves it: no weight yet, not built.\<close>

definition unbuilt_layer :: "store \<Rightarrow> nat \<Rightarrow> bool" where
  "unbuilt_layer st self \<longleftrightarrow>
     self < length (layers st) \<and>
     (let L = layers st ! self in
      valid_config L \<and> \<not> built L \<and> embeddings L = None \<and> lora_a L = None \<and>
      lora_b L = None \<and> magnitude L = None)"

section \<open>Values named in the statements\<close>


text \<open>
  The object \<open>expand_vocabulary\<close> constructs and builds, the blocks of new rows it draws or
  takes from the caller, and the store as it is once the new layer is built.
\<close>

definition expanded_object :: "store \<Rightarrow> nat \<Rightarrow> int \<Rightarrow> layer" where
  "expanded_object st self n =
     (let L = layers st ! self in
      \<lparr>input_dim = n, output_dim = output_dim L, rank = rank L, alpha = alpha L,
       mask_zero = mask_zero L, input_length = input_length L, sparse = sparse L,
       embeddings_initializer = embeddings_initializer L,
       lora_a_initializer = lora_a_initializer L,
       lora_b_initializer = lora_b_initializer L,
       magnitude_initializer = magnitude_initializer L,
       layer_name = layer_name L @ ''_expanded'',
       scaling = alpha L / real_of_int (rank L),
       embeddings = Some (length (mats st)), lora_a = Some (Suc (length (mats st))),
       lora_b = Some (Suc (Suc (length (mats st)))), magnitude = Some (length (vecs st)),
       built = True\<rparr>)"

definition new_rows :: "store \<Rightarrow> nat \<Rightarrow> int \<Rightarrow> matrix option \<Rightarrow> matrix" where
  "new_rows st self n tok =
     (let L = layers st ! self in
      case tok of
        None \<Rightarrow> init_matrix (embeddings_initializer L) (Suc (Suc (Suc (Suc (draws st)))))
                  (nat (n - input_dim L)) (nat (output_dim L))
      | Some T \<Rightarrow> T)"

definition new_lora_rows :: "store \<Rightarrow> nat \<Rightarrow> int \<Rightarrow> matrix option \<Rightarrow> matrix" where
  "new_lora_rows st self n tok =
     (let L = layers st ! self in
      init_matrix (lora_a_initializer L)
        (case tok of None \<Rightarrow> Suc (Suc (Suc (Suc (Suc (draws st)))))
         | Some _ \<Rightarrow> Suc (Suc (Suc (Suc (draws st)))))
        (nat (n - input_dim L)) (nat (rank L)))"

definition store_with_fresh_layer :: "store \<Rightarrow> nat \<Rightarrow> int \<Rightarrow> store" where
  "store_with_fresh_layer st self n =
     (let L = layers st ! self in
      \<lparr>layers = layers st @ [expanded_object st self n],
       mats = mats st @
         [init_matrix (embeddings_initializer L) (draws st) (nat n) (nat (output_dim L)),
          init_matrix (lora_a_initializer L) (Suc (draws st)) (nat n) (nat (rank L)),
          init_matrix (lora_b_initializer L) (Suc (Suc (draws st))) (nat (rank L))
            (nat (output_dim L))],
       vecs = vecs st @
         [init_vector (magnitude_initializer L) (Suc (Suc (Suc (draws st))))
            (nat (output_dim L))],
       draws = Suc (Suc (Suc (Suc (draws st))))\<rparr>)"

text \<open>The object \<open>convert_embedding_to_dora\<close> constructs and builds.\<close>

definition converted_object ::
  "initializer \<Rightarrow> store \<Rightarrow> embedding_layer \<Rightarrow> int \<Rightarrow> real \<Rightarrow> layer" where
  "converted_object he st emb rk al =
     \<lparr>input_dim = emb_input_dim emb, output_dim = emb_output_dim emb, rank = rk, alpha = al,
      mask_zero = emb_mask_zero emb, input_length = emb_input_length emb, sparse = False,
      embeddings_initializer = emb_embeddings_initializer emb,
      lora_a_initializer = he, lora_b_initializer = zeros, magnitude_initializer = ones,
      layer_name = emb_name emb @ ''_dora'',
      scaling = al / real_of_int rk,
      embeddings = Some (length (mats st)), lora_a = Some (Suc (length (mats st))),
      lora_b = Some (Suc (Suc (length (mats st)))), magnitude = Some (length (vecs st)),
      built = True\<rparr>"

text \<open>The same layer with the \<open>sparse\<close> flag set to \<open>b\<close>.\<close>

definition with_sparse :: "store \<Rightarrow> nat \<Rightarrow> bool \<Rightarrow> store" where
  "with_sparse st self b = st\<lparr>layers := (layers st)[self := (layers st ! self)\<lparr>sparse := b\<rparr>]\<rparr>"

section \<open>Concrete layers\<close>

text \<open>
  A layer with \<open>n\<close> tokens, 1 embedding dimension and rank 3, as \<open>__init__\<close> leaves it and
  after \<open>build\<close>.
\<close>

definition example_object :: "int \<Rightarrow> initializer \<Rightarrow> initializer \<Rightarrow> layer" where
  "example_object n lora mag =
     \<lparr>input_dim = n, output_dim = 1, rank = 3, alpha = 1,
      mask_zero = False, input_length = None, sparse = False,
      embeddings_initializer = ones, lora_a_initializer = lora,
      lora_b_initializer = lora, magnitude_initializer = mag,
      layer_name = ''dora'', scaling = 1 / 3,
      embeddings = None, lora_a = None, lora_b = None, magnitude = None,
      built = False\<rparr>"

definition example_unbuilt :: "int \<Rightarrow> initializer \<Rightarrow> initializer \<Rightarrow> store" where
  "example_unbuilt n lora mag =
     \<lparr>layers = [example_object n lora mag], mats = [], vecs = [], draws = 0\<rparr>"

definition example_built :: "int \<Rightarrow> initializer \<Rightarrow> initializer \<Rightarrow> store" where
  "example_built n lora mag = build (example_unbuilt n lora mag) 0"

text \<open>
  The same layer with 2 tokens after training: the four variables hold values that none
  of its initializers (all \<open>ones\<close>) returns, so a copy of a weight can be told from a
  freshly initialized one.
\<close>

definition trained_store :: store where
  "trained_store =
     \<lparr>layers = [(example_object 2 ones ones)\<lparr>embeddings := Some 0, lora_a := Some 1,
                  lora_b := Some 2, magnitude := Some 0, built := True\<rparr>],
      mats = [[[5], [6]], [[1, 2, 3], [4, 5, 6]], [[7], [8], [9]]],
      vecs = [[4]], draws = 4\<rparr>"

section \<open>Shapes of the tensor operations\<close>

lemma is_matrix_nth: "is_matrix r c M \<Longrightarrow> i < r \<Longrightarrow> length (M ! i) = c"
  by (simp add: is_matrix_def list_all_length)

lemma is_matrix_ncols: "is_matrix r c M \<Longrightarrow> 0 < r \<Longrightarrow> ncols M = c"
  by (cases M) (simp_all add: is_matrix_def ncols_def)

lemma is_matrix_length: "is_matrix r c M \<Longrightarrow> length M = r"
  by (simp add: is_matrix_def)

section \<open>The effective matrix, entry by entry\<close>

lemma matmul_shape:
  "is_matrix r k A \<Longrightarrow> is_matrix r (ncols B) (matmul A B)"
  by (simp add: is_matrix_def matmul_def list_all_length)

lemma matmul_nth:
  assumes "i < length A" "j < ncols B"
  shows "(matmul A B ! i) ! j = (\<Sum>k = 0..<length B. (A ! i) ! k * (B ! k) ! j)"
  using assms by (simp add: matmul_def interv_sum_list_conv_sum_set_nat)

lemma scale_shape: "is_matrix r c M \<Longrightarrow> is_matrix r c (scale M s)"
  by (simp add: is_matrix_def scale_def list_all_length)

lemma scale_nth: "i < length M \<Longrightarrow> j < length (M ! i) \<Longrightarrow> (scale M s ! i) ! j = (M ! i) ! j * s"
  by (simp add: scale_def)

lemma add_shape: "is_matrix r c M \<Longrightarrow> is_matrix r c N \<Longrightarrow> is_matrix r c (add M N)"
  by (simp add: is_matrix_def add_def list_all_length)

lemma add_nth:
  "i < length M \<Longrightarrow> i < length N \<Longrightarrow> j < length (M ! i) \<Longrightarrow> j < length (N ! i) \<Longrightarrow>
   (add M N ! i) ! j = (M ! i) ! j + (N ! i) ! j"
  by (simp add: add_def)

lemma combined_shape:
  assumes "is_matrix r c W0" "is_matrix r k A" "is_matrix k c B" "0 < k"
  shows "is_matrix r c (add W0 (scale (matmul A B) s))"
proof -
  have "ncols B = c" using assms by (simp add: is_matrix_ncols)
  then have "is_matrix r c (matmul A B)" using matmul_shape [OF assms(2), of B] by simp
  then show ?thesis using assms(1) by (simp add: add_shape scale_shape)
qed

lemma combined_nth:
  assumes "is_matrix r c W0" "is_matrix r k A" "is_matrix k c B" "0 < k" "i < r" "j < c"
  shows "(add W0 (scale (matmul A B) s) ! i) ! j = spec_combined W0 A B s i j"
proof -
  have nc: "ncols B = c" using assms by (simp add: is_matrix_ncols)
  have mm: "is_matrix r c (matmul A B)" using matmul_shape [OF assms(2), of B] nc by simp
  have lenA: "length A = r" and lenB: "length B = k" and lenW: "length W0 = r"
    using assms by (simp_all add: is_matrix_length)
  have "(matmul A B ! i) ! j = (\<Sum>k = 0..<length B. (A ! i) ! k * (B ! k) ! j)"
    using assms nc lenA by (simp add: matmul_nth)
  moreover have "(scale (matmul A B) s ! i) ! j = (matmul A B ! i) ! j * s"
    using mm assms by (simp add: scale_nth is_matrix_length is_matrix_nth)
  moreover have "(add W0 (scale (matmul A B) s) ! i) ! j = (W0 ! i) ! j + (scale (matmul A B) s ! i) ! j"
    using mm assms lenW scale_shape [OF mm, of s]
    by (simp add: add_nth is_matrix_length is_matrix_nth)
  ultimately show ?thesis by (simp add: spec_combined_def spec_delta_def)
qed

lemmas tensor_defs = multiply_t_def divide_t_def broadcast_def maximum_def sqrt_t_def
        sum_axis0_keepdims_def expand_dims0_def

lemma column_sum_square:
  assumes "is_matrix r c M" "j < c"
  shows "sum_list (map (\<lambda>row. row ! j) (square M)) = (\<Sum>i = 0..<r. ((M ! i) ! j)\<^sup>2)"
proof -
  have "map (\<lambda>row. row ! j) (square M) = map (\<lambda>i. ((M ! i) ! j)\<^sup>2) [0..<r]"
    using assms
    by (auto intro!: nth_equalityI simp: square_def is_matrix_length is_matrix_nth power2_eq_square)
  then show ?thesis
    by (simp add: interv_sum_list_conv_sum_set_nat)
qed

lemma normalise_eq:
  assumes "is_matrix r c M" "length m = c"
  shows "multiply_t (divide_t M (maximum (sqrt_t (sum_axis0_keepdims (square M))) eps)) (expand_dims0 m) =
     map (\<lambda>i. map (\<lambda>j. (M ! i) ! j / max (sqrt (\<Sum>i = 0..<r. ((M ! i) ! j)\<^sup>2)) eps * m ! j) [0..<c]) [0..<r]"
    (is "?lhs = ?rhs")
proof (rule nth_equalityI)
  have len: "length M = r" using assms by (simp add: is_matrix_length)
  show "length ?lhs = length ?rhs"
    by (simp add: tensor_defs len)
  fix i assume "i < length ?lhs"
  then have i: "i < r"
    by (simp add: tensor_defs len)
  then have "0 < r" by simp
  then have nc: "ncols M = c" using assms by (simp add: is_matrix_ncols)
  have sq_nc: "ncols (square M) = c" using nc by (cases M) (simp_all add: square_def ncols_def)
  have row: "length (M ! i) = c" using assms i by (simp add: is_matrix_nth)
  show "?lhs ! i = ?rhs ! i"
    using i row assms(2) column_sum_square [OF assms(1)]
    by (auto intro!: nth_equalityI simp: tensor_defs len sq_nc)
qed

lemma effective_embedding_matrix_spec:
  assumes "is_matrix r c W0" "is_matrix r k A" "is_matrix k c B" "length m = c" "0 < k"
  shows "effective_embedding_matrix W0 A B m s = spec_effective_matrix W0 A B m s"
proof -
  let ?M = "add W0 (scale (matmul A B) s)"
  have M: "is_matrix r c ?M" using assms by (simp add: combined_shape)
  have len: "length W0 = r" using assms by (simp add: is_matrix_length)
  have "effective_embedding_matrix W0 A B m s =
     map (\<lambda>i. map (\<lambda>j. (?M ! i) ! j / max (sqrt (\<Sum>i = 0..<r. ((?M ! i) ! j)\<^sup>2)) eps * m ! j) [0..<c]) [0..<r]"
    unfolding effective_embedding_matrix_def Let_def using normalise_eq [OF M assms(4)] .
  also have "\<dots> = spec_effective_matrix W0 A B m s"
    using assms combined_nth [OF assms(1,2,3,5)]
    by (simp add: spec_effective_matrix_def spec_norm_def spec_raw_norm_def eps_def len)
  finally show ?thesis .
qed

section \<open>Building a layer\<close>

lemma init_matrix_shape: "is_matrix r c (init_matrix f d r c)"
  by (simp add: init_matrix_def is_matrix_def list_all_length)

lemma init_vector_length: "length (init_vector f d n) = n"
  by (simp add: init_vector_def)

lemma build_eq:
  "build st self =
     \<lparr>layers = (layers st)[self := (layers st ! self)\<lparr>embeddings := Some (length (mats st)),
          lora_a := Some (Suc (length (mats st))), lora_b := Some (Suc (Suc (length (mats st)))),
          magnitude := Some (length (vecs st)), built := True\<rparr>],
      mats = mats st @
        [init_matrix (embeddings_initializer (layers st ! self)) (draws st)
           (nat (input_dim (layers st ! self))) (nat (output_dim (layers st ! self))),
         init_matrix (lora_a_initializer (layers st ! self)) (Suc (draws st))
           (nat (input_dim (layers st ! self))) (nat (rank (layers st ! self))),
         init_matrix (lora_b_initializer (layers st ! self)) (Suc (Suc (draws st)))
           (nat (rank (layers st ! self))) (nat (output_dim (layers st ! self)))],
      vecs = vecs st @
        [init_vector (magnitude_initializer (layers st ! self)) (Suc (Suc (Suc (draws st))))
           (nat (output_dim (layers st ! self)))],
      draws = Suc (Suc (Suc (Suc (draws st))))\<rparr>"
  by (simp add: build_def add_weight_matrix_def add_weight_vector_def Let_def)

lemma build_built_layer:
  assumes "self < length (layers st)" "valid_config (layers st ! self)"
  shows "built_layer (build st self) self"
  using assms
  by (simp add: build_eq built_layer_def valid_config_def Let_def nth_append init_matrix_shape
      init_vector_length)

lemma DoRAEmbedding_init_unbuilt:
  assumes "DoRAEmbedding_init i out r al f1 f2 f3 f4 mz il sp nm = Inr L"
  shows "unbuilt_layer (snd (new_layer st L)) (fst (new_layer st L))"
  using assms
  by (auto simp: DoRAEmbedding_init_def new_layer_def unbuilt_layer_def valid_config_def
      split: if_splits)

lemma build_unbuilt_layer:
  assumes "unbuilt_layer st self"
  shows "built_layer (build st self) self"
  using assms by (simp add: unbuilt_layer_def build_built_layer Let_def)

lemma get_effective_embeddings_impl_built:
  assumes "built_layer st self"
  shows "get_effective_embeddings_impl st self =
     Inr (effective_embedding_matrix (W0_of st self) (A_of st self) (B_of st self) (m_of st self)
            (scaling (layers st ! self)))"
  using assms
  by (auto simp: built_layer_def get_effective_embeddings_impl_def Let_def W0_of_def A_of_def
      B_of_def m_of_def split: option.splits)

lemma built_layer_shapes:
  assumes "built_layer st self"
  shows "is_matrix (nat (input_dim (layers st ! self))) (nat (output_dim (layers st ! self))) (W0_of st self)"
    and "is_matrix (nat (input_dim (layers st ! self))) (nat (rank (layers st ! self))) (A_of st self)"
    and "is_matrix (nat (rank (layers st ! self))) (nat (output_dim (layers st ! self))) (B_of st self)"
    and "length (m_of st self) = nat (output_dim (layers st ! self))"
    and "0 < nat (rank (layers st ! self))"
    and "0 < nat (input_dim (layers st ! self))"
    and "0 < nat (output_dim (layers st ! self))"
    and "scaling (layers st ! self) = alpha (layers st ! self) / real_of_int (rank (layers st ! self))"
  using assms
  by (auto simp: built_layer_def valid_config_def Let_def W0_of_def A_of_def
      B_of_def m_of_def split: option.splits)

section \<open>The effective matrix of a built layer\<close>

lemma get_effective_embeddings_impl_spec:
  assumes "built_layer st self"
  shows "get_effective_embeddings_impl st self =
     Inr (spec_effective_matrix (W0_of st self) (A_of st self) (B_of st self) (m_of st self)
            (scaling (layers st ! self)))"
  using get_effective_embeddings_impl_built [OF assms] built_layer_shapes [OF assms]
    effective_embedding_matrix_spec [of _ _ "W0_of st self" _ "A_of st self" "B_of st self" "m_of st self"]
  by simp

section \<open>Growing the vocabulary\<close>

lemma shape_is_matrix: "is_matrix r c M \<Longrightarrow> 0 < r \<Longrightarrow> shape M = (int r, int c)"
  by (simp add: shape_def is_matrix_ncols is_matrix_length)

lemma shape_init_matrix: "0 < r \<Longrightarrow> shape (init_matrix f d r c) = (int r, int c)"
  by (simp add: shape_is_matrix init_matrix_shape)

lemma ncols_append: "M \<noteq> [] \<Longrightarrow> ncols (M @ N) = ncols M"
  by (cases M) (simp_all add: ncols_def)

lemma shape_append:
  "is_matrix r c M \<Longrightarrow> 0 < r \<Longrightarrow> shape (M @ N) = (int r + int (length N), int c)"
  by (cases M) (auto simp: shape_def is_matrix_def ncols_def)

lemma is_matrix_append:
  "is_matrix r c M \<Longrightarrow> is_matrix r' c N \<Longrightarrow> is_matrix (r + r') c (M @ N)"
  by (simp add: is_matrix_def)

lemma DoRAEmbedding_init_valid:
  "0 < i \<Longrightarrow> 0 < out \<Longrightarrow> 0 < r \<Longrightarrow> 0 < al \<Longrightarrow>
   DoRAEmbedding_init i out r al f1 f2 f3 f4 mz il sp nm =
     Inr \<lparr>input_dim = i, output_dim = out, rank = r, alpha = al,
          mask_zero = mz, input_length = il, sparse = sp,
          embeddings_initializer = f1, lora_a_initializer = f2,
          lora_b_initializer = f3, magnitude_initializer = f4,
          layer_name = nm, scaling = al / real_of_int r,
          embeddings = None, lora_a = None, lora_b = None, magnitude = None,
          built = False\<rparr>"
  by (simp add: DoRAEmbedding_init_def)

lemma expand_vocabulary_success:
  assumes "built_layer st self" "input_dim (layers st ! self) < n"
    and "case tok of None \<Rightarrow> True | Some T \<Rightarrow> shape T = (n - input_dim (layers st ! self), output_dim (layers st ! self))"
  shows "expand_vocabulary st self n tok =
     Inr (length (layers st),
          \<lparr>layers = layers st @ [expanded_object st self n],
           mats = mats st @ [W0_of st self @ new_rows st self n tok,
                             A_of st self @ new_lora_rows st self n tok,
                             B_of st self],
           vecs = vecs st @ [m_of st self],
           draws = (case tok of None \<Rightarrow> Suc (Suc (Suc (Suc (Suc (Suc (draws st)))))) | Some _ \<Rightarrow> Suc (Suc (Suc (Suc (Suc (draws st))))))\<rparr>)"
proof -
  let ?L = "layers st ! self"
  obtain e a b g where refs: "embeddings ?L = Some e" "lora_a ?L = Some a" "lora_b ?L = Some b"
      "magnitude ?L = Some g" "e < length (mats st)" "a < length (mats st)" "b < length (mats st)"
      "g < length (vecs st)"
    using assms(1) by (auto simp: built_layer_def Let_def split: option.splits)
  have cfg: "0 < input_dim ?L" "0 < output_dim ?L" "0 < rank ?L" "0 < alpha ?L" "built ?L"
    using assms(1) by (auto simp: built_layer_def valid_config_def Let_def)
  have shapes: "is_matrix (nat (input_dim ?L)) (nat (output_dim ?L)) (mats st ! e)"
      "is_matrix (nat (input_dim ?L)) (nat (rank ?L)) (mats st ! a)"
      "is_matrix (nat (rank ?L)) (nat (output_dim ?L)) (mats st ! b)"
      "length (vecs st ! g) = nat (output_dim ?L)"
    using assms(1) refs by (auto simp: built_layer_def Let_def)
  have n: "0 < n" using cfg assms(2) by simp
  have len_new: "int (length (new_rows st self n tok)) = n - input_dim ?L"
    using assms(2,3) by (cases tok) (simp_all add: new_rows_def init_matrix_def shape_def Let_def)
  have shE: "shape (mats st ! e @ new_rows st self n tok) = (n, output_dim ?L)"
    using shape_append [OF shapes(1)] cfg len_new by simp
  have shA: "shape (mats st ! a @ new_lora_rows st self n tok) = (n, rank ?L)"
    using shape_append [OF shapes(2)] cfg assms(2) by (simp add: new_lora_rows_def init_matrix_def Let_def)
  have shB: "shape (mats st ! b) = (rank ?L, output_dim ?L)"
    using shape_is_matrix [OF shapes(3)] cfg by simp
  show ?thesis
    using assms(2,3) refs cfg n shE shA shB shapes(4)
    by (cases tok)
       (simp_all add: expand_vocabulary_def Let_def DoRAEmbedding_init_valid new_layer_def build_eq
          then_do_def numpy_matrix_def numpy_vector_def new_token_block_def assign_matrix_def
          assign_vector_def nth_append shape_init_matrix init_vector_length
          expanded_object_def new_rows_def new_lora_rows_def W0_of_def A_of_def B_of_def m_of_def
          list_update_append)
qed

section \<open>Rejected arguments\<close>

lemma built_layer_shape_W0:
  assumes "built_layer st self"
  shows "embeddings (layers st ! self) = Some e \<Longrightarrow>
         shape (mats st ! e) = (input_dim (layers st ! self), output_dim (layers st ! self))"
  using assms
  by (auto simp: built_layer_def valid_config_def Let_def shape_is_matrix split: option.splits)

lemma load_pretrained_embeddings_mismatch:
  assumes "built_layer st self"
    and "shape P \<noteq> (input_dim (layers st ! self), output_dim (layers st ! self))"
  shows "load_pretrained_embeddings st self P = Inl (ShapeMismatch, st)"
proof -
  obtain e where e: "embeddings (layers st ! self) = Some e"
    using assms(1) by (auto simp: built_layer_def Let_def split: option.splits)
  show ?thesis
    using e assms(2) built_layer_shape_W0 [OF assms(1) e]
    by (simp add: load_pretrained_embeddings_def Let_def)
qed

lemma expand_vocabulary_too_small:
  "n \<le> input_dim (layers st ! self) \<Longrightarrow>
   expand_vocabulary st self n tok = Inl (InvalidArgument, st)"
  by (simp add: expand_vocabulary_def Let_def)

lemma expand_vocabulary_mismatch:
  assumes "built_layer st self" "input_dim (layers st ! self) < n"
    and "shape T \<noteq> (n - input_dim (layers st ! self), output_dim (layers st ! self))"
  shows "expand_vocabulary st self n (Some T) =
     Inl (ShapeMismatch, store_with_fresh_layer st self n)"
proof -
  let ?L = "layers st ! self"
  obtain e a b g where refs: "embeddings ?L = Some e" "lora_a ?L = Some a" "lora_b ?L = Some b"
      "magnitude ?L = Some g"
    using assms(1) by (auto simp: built_layer_def Let_def split: option.splits)
  have cfg: "0 < input_dim ?L" "0 < output_dim ?L" "0 < rank ?L" "0 < alpha ?L" "built ?L"
    using assms(1) by (auto simp: built_layer_def valid_config_def Let_def)
  have n: "0 < n" using cfg assms(2) by simp
  show ?thesis
    using assms(2,3) refs cfg n
    by (simp add: expand_vocabulary_def Let_def DoRAEmbedding_init_valid new_layer_def build_eq
          then_do_def numpy_matrix_def numpy_vector_def new_token_block_def
          nth_append expanded_object_def store_with_fresh_layer_def)
qed

lemma expand_vocabulary_Inr_D:
  assumes "built_layer st self" "expand_vocabulary st self n tok = Inr res"
  shows "input_dim (layers st ! self) < n"
    and "case tok of None \<Rightarrow> True
         | Some T \<Rightarrow> shape T = (n - input_dim (layers st ! self), output_dim (layers st ! self))"
proof -
  show lt: "input_dim (layers st ! self) < n"
    using assms(2) expand_vocabulary_too_small [of n st self tok] by (cases "input_dim (layers st ! self) < n") auto
  show "case tok of None \<Rightarrow> True
         | Some T \<Rightarrow> shape T = (n - input_dim (layers st ! self), output_dim (layers st ! self))"
  proof (cases tok)
    case None
    then show ?thesis by simp
  next
    case (Some T)
    then show ?thesis
      using assms(2) expand_vocabulary_mismatch [OF assms(1) lt, of T] by auto
  qed
qed

lemma expand_vocabulary_built:
  assumes "built_layer st self"
    and "input_dim (layers st ! self) < n"
    and "case tok of None \<Rightarrow> True
         | Some T \<Rightarrow> is_matrix (nat (n - input_dim (layers st ! self)))
                      (nat (output_dim (layers st ! self))) T"
  shows "\<exists>x st'. expand_vocabulary st self n tok = Inr (x, st') \<and> built_layer st' x"
proof -
  let ?L = "layers st ! self"
  have cfg: "0 < input_dim ?L" "0 < output_dim ?L" "0 < rank ?L" "0 < alpha ?L"
    using assms(1) by (auto simp: built_layer_def valid_config_def Let_def)
  have tok: "case tok of None \<Rightarrow> True
         | Some T \<Rightarrow> shape T = (n - input_dim ?L, output_dim ?L)"
    using assms(2,3) cfg by (cases tok) (simp_all add: shape_is_matrix)
  have rows: "is_matrix (nat (n - input_dim ?L)) (nat (output_dim ?L)) (new_rows st self n tok)"
    using assms(3) by (cases tok) (simp_all add: new_rows_def init_matrix_shape Let_def)
  have lrows: "is_matrix (nat (n - input_dim ?L)) (nat (rank ?L)) (new_lora_rows st self n tok)"
    by (simp add: new_lora_rows_def init_matrix_shape Let_def)
  have n: "nat n = nat (input_dim ?L) + nat (n - input_dim ?L)"
    using cfg assms(2) by simp
  have W: "is_matrix (nat n) (nat (output_dim ?L)) (W0_of st self @ new_rows st self n tok)"
    unfolding n using built_layer_shapes(1) [OF assms(1)] rows by (rule is_matrix_append)
  have A: "is_matrix (nat n) (nat (rank ?L)) (A_of st self @ new_lora_rows st self n tok)"
    unfolding n using built_layer_shapes(2) [OF assms(1)] lrows by (rule is_matrix_append)
  show ?thesis
    using W A built_layer_shapes(3,4) [OF assms(1)] cfg assms(2)
    by (simp add: expand_vocabulary_success [OF assms(1,2) tok] built_layer_def valid_config_def
        expanded_object_def Let_def nth_append)
qed

section \<open>The lookup\<close>

lemma get_effective_embeddings_impl_with_sparse:
  "get_effective_embeddings_impl (with_sparse st self b) self = get_effective_embeddings_impl st self"
proof (cases "self < length (layers st)")
  case True
  then show ?thesis
    by (simp add: with_sparse_def get_effective_embeddings_impl_def Let_def split: option.splits)
next
  case False
  then have "(layers st)[self := (layers st ! self)\<lparr>sparse := b\<rparr>] = layers st"
    by (simp add: list_update_beyond)
  then show ?thesis
    by (simp add: with_sparse_def get_effective_embeddings_impl_def Let_def)
qed

lemma call_take_axis0:
  "call st self inputs =
     (case get_effective_embeddings_impl st self of
        Inl e \<Rightarrow> Inl e
      | Inr E \<Rightarrow> take_axis0 E (as_indices inputs))"
  by (simp add: call_def Let_def split: sum.splits)

section \<open>The conversion\<close>

lemma length_linalg_norm_axis0: "length (linalg_norm_axis0 M) = ncols M"
  by (simp add: linalg_norm_axis0_def)

lemma convert_embedding_to_dora_built:
  assumes "emb_built emb" "emb_embeddings emb = Some w" "w < length (mats st)"
    and "is_matrix (nat (emb_input_dim emb)) (nat (emb_output_dim emb)) (mats st ! w)"
    and "0 < emb_input_dim emb" "0 < emb_output_dim emb" "0 < rk" "0 < al"
  shows "convert_embedding_to_dora he st emb rk al =
     Inr (length (layers st),
          \<lparr>layers = layers st @ [converted_object he st emb rk al],
           mats = mats st @
             [mats st ! w,
              init_matrix he (Suc (draws st)) (nat (emb_input_dim emb)) (nat rk),
              init_matrix zeros (Suc (Suc (draws st))) (nat rk) (nat (emb_output_dim emb))],
           vecs = vecs st @ [linalg_norm_axis0 (mats st ! w)],
           draws = Suc (Suc (Suc (Suc (draws st))))\<rparr>)"
proof -
  have sh: "shape (mats st ! w) = (emb_input_dim emb, emb_output_dim emb)"
    using shape_is_matrix [OF assms(4)] assms(5,6) by simp
  have nc: "ncols (mats st ! w) = nat (emb_output_dim emb)"
    using is_matrix_ncols [OF assms(4)] assms(5) by simp
  show ?thesis
    using assms sh nc
    by (simp add: convert_embedding_to_dora_def Let_def DoRAEmbedding_init_valid new_layer_def
        build_eq then_do_def numpy_matrix_def load_pretrained_embeddings_def assign_matrix_def
        assign_vector_def nth_append shape_init_matrix init_vector_length
        length_linalg_norm_axis0 converted_object_def list_update_append)
qed

section \<open>Overflow: the sum of squares and the divisor\<close>

lemma fp_effective_embedding_matrix_unfold:
  "fp_effective_embedding_matrix T W0 A B m s =
     fp_broadcast (fp_mul T)
       (fp_broadcast (fp_div T) (fp_combined T W0 A B s)
          (fp_column_norms T (fp_combined T W0 A B s))) [m]"
  by (simp add: fp_effective_embedding_matrix_def fp_combined_def fp_column_norms_def Let_def)

lemma fp_max_not_below_floor: "not_below_floor (fp_max x (Fin eps))"
  by (cases x) (simp_all add: not_below_floor_def eps_def)

lemma fp_column_norms_not_below_floor:
  "list_all (list_all not_below_floor) (fp_column_norms T M)"
  by (simp add: fp_column_norms_def fp_maximum_def fp_sqrt_t_def fp_sum_axis0_keepdims_def
      list_all_length fp_max_not_below_floor)

lemma round_fp_Fin: "round_fp T r = Fin q \<Longrightarrow> q = r \<and> \<bar>r\<bar> < T"
  by (auto simp: round_fp_def split: if_splits)

lemma round_fp_small: "\<bar>r\<bar> < T \<Longrightarrow> round_fp T r = Fin r"
  by (auto simp: round_fp_def)

lemma round_fp_nonneg: "0 < T \<Longrightarrow> 0 \<le> q \<Longrightarrow> nonneg_or_inf (round_fp T q)"
  by (simp add: round_fp_def nonneg_or_inf_def)

lemma fp_finite_Fin: "fp_finite T x \<Longrightarrow> \<exists>r. x = Fin r \<and> \<bar>r\<bar> < T"
  by (cases x) (simp_all add: fp_finite_def)

lemma foldl_fp_add_PInf:
  "\<forall>x\<in>set xs. nonneg_or_inf x \<Longrightarrow> foldl (fp_add T) PInf xs = PInf"
proof (induction xs)
  case Nil
  then show ?case by simp
next
  case (Cons x xs)
  then have "fp_add T PInf x = PInf"
    by (cases x) (simp_all add: nonneg_or_inf_def)
  then show ?case using Cons by simp
qed

lemma foldl_fp_add_Fin:
  assumes "0 < T"
  shows "\<forall>x\<in>set xs. nonneg_or_inf x \<Longrightarrow> 0 \<le> a \<Longrightarrow> foldl (fp_add T) (Fin a) xs = Fin S \<Longrightarrow>
         a \<le> S \<and> (\<forall>x\<in>set xs. \<exists>q. x = Fin q \<and> 0 \<le> q \<and> q \<le> S)"
proof (induction xs arbitrary: a)
  case Nil
  then show ?case by simp
next
  case (Cons x xs)
  have nn: "nonneg_or_inf x" and rest: "\<forall>y\<in>set xs. nonneg_or_inf y"
    using Cons.prems(1) by simp_all
  show ?case
  proof (cases x)
    case (Fin q)
    then have q: "0 \<le> q" using nn by (simp add: nonneg_or_inf_def)
    show ?thesis
    proof (cases "T \<le> a + q")
      case True
      then have "fp_add T (Fin a) x = PInf" using Fin by (simp add: round_fp_def)
      then have "foldl (fp_add T) (Fin a) (x # xs) = PInf"
        using foldl_fp_add_PInf [OF rest] by simp
      then show ?thesis using Cons.prems(3) by simp
    next
      case False
      then have step: "fp_add T (Fin a) x = Fin (a + q)"
        using Fin q Cons.prems(2) assms by (simp add: round_fp_def)
      then have "foldl (fp_add T) (Fin (a + q)) xs = Fin S"
        using Cons.prems(3) by simp
      then have "a + q \<le> S \<and> (\<forall>y\<in>set xs. \<exists>q'. y = Fin q' \<and> 0 \<le> q' \<and> q' \<le> S)"
        using Cons.IH [OF rest, of "a + q"] q Cons.prems(2) by simp
      then show ?thesis using Fin q Cons.prems(2) by auto
    qed
  next
    case PInf
    then have "foldl (fp_add T) (Fin a) (x # xs) = PInf"
      using foldl_fp_add_PInf [OF rest] by simp
    then show ?thesis using Cons.prems(3) by simp
  next
    case NInf
    then show ?thesis using nn by (simp add: nonneg_or_inf_def)
  next
    case NaN
    then show ?thesis using nn by (simp add: nonneg_or_inf_def)
  qed
qed

lemma fp_matmul_shape: "is_matrix r k A \<Longrightarrow> is_matrix r (ncols B) (fp_matmul T A B)"
  by (simp add: is_matrix_def fp_matmul_def list_all_length)

lemma fp_scale_shape: "is_matrix r c M \<Longrightarrow> is_matrix r c (fp_scale T M s)"
  by (simp add: is_matrix_def fp_scale_def list_all_length)

lemma fp_add_t_shape: "is_matrix r c M \<Longrightarrow> is_matrix r c N \<Longrightarrow> is_matrix r c (fp_add_t T M N)"
  by (simp add: is_matrix_def fp_add_t_def list_all_length)

lemma fp_combined_shape:
  assumes "is_matrix r c W0" "is_matrix r k A" "is_matrix k c B" "0 < k"
  shows "is_matrix r c (fp_combined T W0 A B s)"
proof -
  have "ncols B = c" using assms by (simp add: is_matrix_ncols)
  then have "is_matrix r c (fp_matmul T A B)" using fp_matmul_shape [OF assms(2), of B T] by simp
  then show ?thesis using assms(1) by (simp add: fp_combined_def fp_add_t_shape fp_scale_shape)
qed

lemma all_finite_nth:
  "all_finite T M \<Longrightarrow> i < length M \<Longrightarrow> j < length (M ! i) \<Longrightarrow> fp_finite T ((M ! i) ! j)"
  by (simp add: all_finite_def list_all_length)

lemma fp_column_sum:
  assumes "is_matrix r c M" "0 < r" "j < c"
  shows "(fp_sum_axis0_keepdims T (fp_square T M) ! 0) ! j =
         fp_sum T (map (\<lambda>i. fp_mul T ((M ! i) ! j) ((M ! i) ! j)) [0..<r])"
proof -
  have nc: "ncols (fp_square T M) = c"
    using assms by (cases M) (auto simp: fp_square_def ncols_def is_matrix_def)
  have "map (\<lambda>row. row ! j) (fp_square T M) =
        map (\<lambda>i. fp_mul T ((M ! i) ! j) ((M ! i) ! j)) [0..<r]"
    using assms
    by (auto intro!: nth_equalityI simp: fp_square_def is_matrix_length is_matrix_nth)
  then show ?thesis using assms(3) by (simp add: fp_sum_axis0_keepdims_def nc)
qed

lemma fp_sum_squares_bound:
  assumes T: "0 < T" and M: "is_matrix r c M" "all_finite T M" and j: "j < c" and i: "i < r"
    and sum: "fp_sum T (map (\<lambda>i. fp_mul T ((M ! i) ! j) ((M ! i) ! j)) [0..<r]) = Fin S"
  shows "\<exists>x. (M ! i) ! j = Fin x \<and> \<bar>x\<bar> < T \<and> x * x \<le> S \<and> 0 \<le> S"
proof -
  let ?xs = "map (\<lambda>i. fp_mul T ((M ! i) ! j) ((M ! i) ! j)) [0..<r]"
  have fin: "\<And>i. i < r \<Longrightarrow> \<exists>x. (M ! i) ! j = Fin x \<and> \<bar>x\<bar> < T"
    using M j by (intro fp_finite_Fin all_finite_nth) (simp_all add: is_matrix_length is_matrix_nth)
  have nn: "\<forall>y\<in>set ?xs. nonneg_or_inf y"
  proof
    fix y assume "y \<in> set ?xs"
    then obtain i' where i': "i' < r" and y: "y = fp_mul T ((M ! i') ! j) ((M ! i') ! j)"
      by auto
    obtain x where "(M ! i') ! j = Fin x" using fin [OF i'] by blast
    then show "nonneg_or_inf y" using y T by (simp add: round_fp_nonneg)
  qed
  have bound: "0 \<le> S \<and> (\<forall>y\<in>set ?xs. \<exists>q. y = Fin q \<and> 0 \<le> q \<and> q \<le> S)"
    using foldl_fp_add_Fin [OF T nn, of 0 S] sum by (simp add: fp_sum_def)
  obtain x where x: "(M ! i) ! j = Fin x" "\<bar>x\<bar> < T" using fin [OF i] by blast
  have "fp_mul T ((M ! i) ! j) ((M ! i) ! j) \<in> set ?xs" using i by auto
  then obtain q where "fp_mul T ((M ! i) ! j) ((M ! i) ! j) = Fin q" "q \<le> S"
    using bound by blast
  then have "x * x \<le> S" using x round_fp_Fin [of T "x * x" q] by simp
  then show ?thesis using x bound by blast
qed

lemma fp_column_norms_eq:
  assumes "is_matrix r c M" "0 < r"
  shows "fp_column_norms T M =
     [map (\<lambda>j. fp_max (fp_sqrt (fp_sum T (map (\<lambda>i. fp_mul T ((M ! i) ! j) ((M ! i) ! j)) [0..<r])))
                  (Fin eps)) [0..<c]]"
proof -
  have nc: "ncols (fp_square T M) = c"
    using assms by (cases M) (auto simp: fp_square_def ncols_def is_matrix_def)
  have "fp_sum_axis0_keepdims T (fp_square T M) =
      [map (\<lambda>j. fp_sum T (map (\<lambda>i. fp_mul T ((M ! i) ! j) ((M ! i) ! j)) [0..<r])) [0..<c]]"
    using fp_column_sum [OF assms, of _ T]
    by (auto intro!: nth_equalityI simp: fp_sum_axis0_keepdims_def nc)
  then show ?thesis
    by (simp add: fp_column_norms_def fp_sqrt_t_def fp_maximum_def)
qed

lemma fp_sums_finite:
  assumes "is_matrix r c M" "0 < r" "j < c"
    and "all_finite T (fp_sum_axis0_keepdims T (fp_square T M))"
  shows "\<exists>S. fp_sum T (map (\<lambda>i. fp_mul T ((M ! i) ! j) ((M ! i) ! j)) [0..<r]) = Fin S"
proof -
  have nc: "ncols (fp_square T M) = c"
    using assms by (cases M) (auto simp: fp_square_def ncols_def is_matrix_def)
  have "fp_finite T ((fp_sum_axis0_keepdims T (fp_square T M) ! 0) ! j)"
    using assms(3,4) by (intro all_finite_nth) (simp_all add: fp_sum_axis0_keepdims_def nc)
  then show ?thesis
    using fp_column_sum [OF assms(1-3), of T] fp_finite_Fin by fastforce
qed

lemma fp_entry_finite:
  assumes T: "1 < T" and x: "\<bar>x\<bar> < T" "x * x \<le> S" "0 \<le> S" and m: "\<bar>mj\<bar> < T"
  shows "fp_finite T (fp_mul T (fp_div T (Fin x) (fp_max (fp_sqrt (Fin S)) (Fin eps))) (Fin mj))"
proof -
  let ?d = "max (sqrt S) eps"
  have d_pos: "0 < ?d" by (simp add: eps_def less_max_iff_disj)
  have "\<bar>x\<bar> = sqrt (x * x)" by simp
  also have "\<dots> \<le> sqrt S" using x(2) by (simp only: real_sqrt_le_iff)
  also have "\<dots> \<le> ?d" by simp
  finally have xd: "\<bar>x\<bar> \<le> ?d" .
  then have q: "\<bar>x / ?d\<bar> \<le> 1" using d_pos by simp
  then have "\<bar>x / ?d\<bar> < T" using T by linarith
  then have "round_fp T (x / ?d) = Fin (x / ?d)" by (rule round_fp_small)
  then have div: "fp_div T (Fin x) (Fin ?d) = Fin (x / ?d)"
    using d_pos by simp
  have "\<bar>x / ?d * mj\<bar> = \<bar>x / ?d\<bar> * \<bar>mj\<bar>" by (simp add: abs_mult)
  also have "\<dots> \<le> 1 * \<bar>mj\<bar>" using q by (intro mult_right_mono) simp_all
  finally have "\<bar>x / ?d * mj\<bar> < T" using m by simp
  then show ?thesis
    using div x(3) by (simp add: round_fp_small fp_finite_def)
qed

lemma epsilon_floor_no_overflow:
  assumes T: "1 < T"
    and shapes: "is_matrix r c W0" "is_matrix r k A" "is_matrix k c B" "length m = c"
      "0 < k" "0 < r"
    and finC: "all_finite T (fp_combined T W0 A B s)"
    and finS: "all_finite T (fp_sum_axis0_keepdims T (fp_square T (fp_combined T W0 A B s)))"
    and finm: "list_all (fp_finite T) m"
  shows "list_all (list_all floored) (fp_column_norms T (fp_combined T W0 A B s)) \<and>
         all_finite T (fp_effective_embedding_matrix T W0 A B m s)"
proof -
  let ?C = "fp_combined T W0 A B s"
  let ?sum = "\<lambda>j. fp_sum T (map (\<lambda>i. fp_mul T ((?C ! i) ! j) ((?C ! i) ! j)) [0..<r])"
  have C: "is_matrix r c ?C" using shapes by (simp add: fp_combined_shape)
  have T0: "0 < T" using T by simp
  have norms: "fp_column_norms T ?C = [map (\<lambda>j. fp_max (fp_sqrt (?sum j)) (Fin eps)) [0..<c]]"
    using fp_column_norms_eq [OF C shapes(6)] .
  have col: "\<exists>S. ?sum j = Fin S \<and> 0 \<le> S \<and>
               (\<forall>i<r. \<exists>x. (?C ! i) ! j = Fin x \<and> \<bar>x\<bar> < T \<and> x * x \<le> S)" if j: "j < c" for j
  proof -
    obtain S where S: "?sum j = Fin S" using fp_sums_finite [OF C shapes(6) j finS] by blast
    have "\<forall>i<r. \<exists>x. (?C ! i) ! j = Fin x \<and> \<bar>x\<bar> < T \<and> x * x \<le> S \<and> 0 \<le> S"
      using fp_sum_squares_bound [OF T0 C finC j _ S] by blast
    then show ?thesis using S shapes(6) by blast
  qed
  have floor: "list_all (list_all floored) (fp_column_norms T ?C)"
  proof -
    have "floored (fp_max (fp_sqrt (?sum j)) (Fin eps))" if j: "j < c" for j
    proof -
      obtain S where "?sum j = Fin S" "0 \<le> S" using col [OF j] by blast
      then show ?thesis by (simp add: floored_def eps_def)
    qed
    then show ?thesis by (simp add: norms list_all_length)
  qed
  have entry: "fp_finite T (fp_mul T (fp_div T ((?C ! i) ! j) (fp_max (fp_sqrt (?sum j)) (Fin eps))) (m ! j))"
    if i: "i < r" and j: "j < c" for i j
  proof -
    obtain S where S: "?sum j = Fin S" "0 \<le> S"
        and all: "\<forall>i<r. \<exists>x. (?C ! i) ! j = Fin x \<and> \<bar>x\<bar> < T \<and> x * x \<le> S"
      using col [OF j] by blast
    obtain x where x: "(?C ! i) ! j = Fin x" "\<bar>x\<bar> < T" "x * x \<le> S" using all i by blast
    obtain mj where mj: "m ! j = Fin mj" "\<bar>mj\<bar> < T"
      using finm j shapes(4) fp_finite_Fin [of T "m ! j"] by (auto simp: list_all_length)
    show ?thesis
      using fp_entry_finite [OF T x(2,3) S(2) mj(2)] by (simp add: x(1) S(1) mj(1))
  qed
  have "all_finite T (fp_effective_embedding_matrix T W0 A B m s)"
    using entry C shapes(4)
    by (simp add: fp_effective_embedding_matrix_unfold norms fp_broadcast_def
        all_finite_def list_all_length is_matrix_length is_matrix_nth)
  then show ?thesis using floor by simp
qed

lemmas fp_tensor_defs = fp_matmul_def fp_scale_def fp_add_t_def fp_square_def fp_sqrt_t_def
  fp_maximum_def fp_sum_axis0_keepdims_def fp_broadcast_def fp_sum_def

section \<open>Overflow: exact sums\<close>






lemma foldl_fp_add_nonneg:
  "0 < T \<Longrightarrow> \<forall>y\<in>set ys. nonneg_or_inf y \<Longrightarrow> nonneg_or_inf x \<Longrightarrow>
   nonneg_or_inf (foldl (fp_add T) x ys)"
proof (induction ys arbitrary: x)
  case Nil
  then show ?case by simp
next
  case (Cons y ys)
  have "nonneg_or_inf (fp_add T x y)"
    using Cons.prems by (cases x; cases y) (simp_all add: nonneg_or_inf_def round_fp_def)
  then show ?case using Cons by simp
qed

section \<open>Overflow: the entries of the effective matrix\<close>

lemma fp_effective_embedding_matrix_nth:
  assumes "is_matrix r c W0" "is_matrix r k A" "is_matrix k c B" "length m = c" "0 < k"
    and "i < r" "j < c"
  shows "(fp_effective_embedding_matrix T W0 A B m s ! i) ! j =
         fp_mul T
           (fp_div T ((fp_combined T W0 A B s ! i) ! j)
              (fp_max (fp_sqrt (fp_sum T (map (\<lambda>i. fp_mul T ((fp_combined T W0 A B s ! i) ! j)
                                                   ((fp_combined T W0 A B s ! i) ! j)) [0..<r])))
                 (Fin eps)))
           (m ! j)"
proof -
  let ?C = "fp_combined T W0 A B s"
  have C: "is_matrix r c ?C" using assms by (simp add: fp_combined_shape)
  have r: "0 < r" using assms(6) by simp
  note norms = fp_column_norms_eq [OF C r, of T]
  show ?thesis
    using C assms(4,6,7)
    by (simp add: fp_effective_embedding_matrix_unfold norms fp_broadcast_def
        is_matrix_length is_matrix_nth)
qed

lemma fp_effective_embedding_matrix_shape:
  assumes "is_matrix r c W0" "is_matrix r k A" "is_matrix k c B" "length m = c" "0 < k" "0 < r"
  shows "is_matrix r c (fp_effective_embedding_matrix T W0 A B m s)"
proof -
  let ?C = "fp_combined T W0 A B s"
  have C: "is_matrix r c ?C" using assms by (simp add: fp_combined_shape)
  note norms = fp_column_norms_eq [OF C assms(6), of T]
  show ?thesis
    using C assms(4)
    by (simp add: fp_effective_embedding_matrix_unfold norms fp_broadcast_def
        is_matrix_def list_all_length)
qed


lemma fp_entry_value:
  assumes T: "1 < T" and x: "x * x \<le> S" "0 \<le> S" and m: "\<bar>mj\<bar> < T"
  shows "fp_mul T (fp_div T (Fin x) (fp_max (fp_sqrt (Fin S)) (Fin eps))) (Fin mj) =
         Fin (x / max (sqrt S) eps * mj)"
proof -
  let ?d = "max (sqrt S) eps"
  have d_pos: "0 < ?d" by (simp add: eps_def less_max_iff_disj)
  have "\<bar>x\<bar> = sqrt (x * x)" by simp
  also have "\<dots> \<le> sqrt S" using x(1) by (simp only: real_sqrt_le_iff)
  also have "\<dots> \<le> ?d" by simp
  finally have xd: "\<bar>x\<bar> \<le> ?d" .
  then have q: "\<bar>x / ?d\<bar> \<le> 1" using d_pos by simp
  then have "\<bar>x / ?d\<bar> < T" using T by linarith
  then have "round_fp T (x / ?d) = Fin (x / ?d)" by (rule round_fp_small)
  then have div: "fp_div T (Fin x) (Fin ?d) = Fin (x / ?d)"
    using d_pos by simp
  have "\<bar>x / ?d * mj\<bar> = \<bar>x / ?d\<bar> * \<bar>mj\<bar>" by (simp add: abs_mult)
  also have "\<dots> \<le> 1 * \<bar>mj\<bar>" using q by (intro mult_right_mono) simp_all
  finally have "\<bar>x / ?d * mj\<bar> < T" using m by simp
  then show ?thesis
    using div x(2) by (simp add: round_fp_small)
qed


section \<open>Overflow: a zero magnitude\<close>

lemma fp_magnitude_zero:
  assumes T: "1 < T"
    and shapes: "is_matrix r c W0" "is_matrix r k A" "is_matrix k c B" "0 < k" "0 < r"
    and finC: "all_finite T (fp_combined T W0 A B s)"
  shows "fp_effective_embedding_matrix T W0 A B (replicate c (Fin 0)) s =
         replicate r (replicate c (Fin 0))"
proof -
  let ?C = "fp_combined T W0 A B s"
  let ?m = "replicate c (Fin 0 :: fp)"
  let ?E = "fp_effective_embedding_matrix T W0 A B ?m s"
  let ?sum = "\<lambda>j. fp_sum T (map (\<lambda>i. fp_mul T ((?C ! i) ! j) ((?C ! i) ! j)) [0..<r])"
  have C: "is_matrix r c ?C" using shapes by (simp add: fp_combined_shape)
  have T0: "0 < T" using T by simp
  have len: "length ?m = c" by simp
  note nth = fp_effective_embedding_matrix_nth [OF shapes(1-3) len shapes(4), of _ _ T s]
  have E: "is_matrix r c ?E"
    using shapes len by (intro fp_effective_embedding_matrix_shape)
  have entry: "(?E ! i) ! j = Fin 0" if i: "i < r" and j: "j < c" for i j
  proof -
    have fin: "\<And>i. i < r \<Longrightarrow> \<exists>x. (?C ! i) ! j = Fin x \<and> \<bar>x\<bar> < T"
      using C finC j by (intro fp_finite_Fin all_finite_nth) (simp_all add: is_matrix_length is_matrix_nth)
    obtain x where x: "(?C ! i) ! j = Fin x" "\<bar>x\<bar> < T" using fin [OF i] by blast
    have "\<forall>y\<in>set (map (\<lambda>i. fp_mul T ((?C ! i) ! j) ((?C ! i) ! j)) [0..<r]). nonneg_or_inf y"
    proof
      fix y assume "y \<in> set (map (\<lambda>i. fp_mul T ((?C ! i) ! j) ((?C ! i) ! j)) [0..<r])"
      then obtain i' where i': "i' < r" and y: "y = fp_mul T ((?C ! i') ! j) ((?C ! i') ! j)"
        by auto
      obtain x' where "(?C ! i') ! j = Fin x'" using fin [OF i'] by blast
      then show "nonneg_or_inf y" using y T0 by (simp add: round_fp_nonneg)
    qed
    then have nn: "nonneg_or_inf (?sum j)"
      unfolding fp_sum_def using T0 by (intro foldl_fp_add_nonneg) (simp_all add: nonneg_or_inf_def)
    have "fp_mul T (fp_div T (Fin x) (fp_max (fp_sqrt (?sum j)) (Fin eps))) (Fin 0) = Fin 0"
    proof (cases "?sum j")
      case (Fin S)
      have "x * x \<le> S \<and> 0 \<le> S"
        using fp_sum_squares_bound [OF T0 C finC j i Fin] x(1) by simp
      then show ?thesis
        using fp_entry_value [OF T, of x S 0] T0 by (simp add: Fin)
    next
      case PInf
      then show ?thesis using T0 by (simp add: round_fp_def)
    next
      case NInf
      then show ?thesis using nn by (simp add: nonneg_or_inf_def)
    next
      case NaN
      then show ?thesis using nn by (simp add: nonneg_or_inf_def)
    qed
    then show ?thesis
      using nth [OF i j] j by (simp add: x(1))
  qed
  show ?thesis
  proof (rule nth_equalityI)
    show "length ?E = length (replicate r (replicate c (Fin 0 :: fp)))"
      using E by (simp add: is_matrix_length)
    fix i assume "i < length ?E"
    then have i: "i < r" using E by (simp add: is_matrix_length)
    have "?E ! i = replicate c (Fin 0)"
      using is_matrix_nth [OF E i] entry [OF i] by (intro nth_equalityI) simp_all
    then show "?E ! i = replicate r (replicate c (Fin 0)) ! i" using i by simp
  qed
qed

section \<open>Overflow: the norm of a column\<close>




section \<open>Overflow: the conversion\<close>








section \<open>The concrete layers, evaluated\<close>

lemma upt_small: "[0..<Suc 0] = [0]" "[0..<2] = [0, 1]" "[0..<3] = [0, 1, 2]"
  by (simp_all add: upt_rec)

lemma example_object_init:
  "0 < n \<Longrightarrow>
   DoRAEmbedding_init n 1 3 1 ones lora lora mag False None False ''dora'' =
     Inr (example_object n lora mag)"
  by (simp add: DoRAEmbedding_init_def example_object_def)

lemma example_unbuilt_ok: "0 < n \<Longrightarrow> unbuilt_layer (example_unbuilt n lora mag) 0"
  by (simp add: unbuilt_layer_def example_unbuilt_def example_object_def valid_config_def)

lemma example_built_ok: "0 < n \<Longrightarrow> built_layer (example_built n lora mag) 0"
  by (simp add: example_built_def build_built_layer example_unbuilt_def example_object_def
      valid_config_def)

lemma example_built_layer:
  "layers (example_built n lora mag) ! 0 =
     (example_object n lora mag)\<lparr>embeddings := Some 0, lora_a := Some 1, lora_b := Some 2,
        magnitude := Some 0, built := True\<rparr>"
  by (simp add: example_built_def example_unbuilt_def build_eq)

lemma example_built_2:
  "mats (example_built 2 ones mag) = [[[1], [1]], [[1, 1, 1], [1, 1, 1]], [[1], [1], [1]]]"
  "vecs (example_built 2 ones mag) = [[mag 3 [1] [0]]]"
  by (simp_all add: example_built_def example_unbuilt_def build_eq example_object_def
      init_matrix_def init_vector_def ones_def upt_small numeral_3_eq_3)

lemmas example_weights = W0_of_def A_of_def B_of_def m_of_def example_built_layer example_object_def



lemma trained_store_ok: "built_layer trained_store 0"
  by (simp add: built_layer_def trained_store_def example_object_def valid_config_def
      is_matrix_def)

lemma trained_store_weights:
  "W0_of trained_store 0 = [[5], [6]]" "A_of trained_store 0 = [[1, 2, 3], [4, 5, 6]]"
  "B_of trained_store 0 = [[7], [8], [9]]" "m_of trained_store 0 = [4]"
  "input_dim (layers trained_store ! 0) = 2" "output_dim (layers trained_store ! 0) = 1"
  "rank (layers trained_store ! 0) = 3" "alpha (layers trained_store ! 0) = 1"
  "length (layers trained_store) = 1" "length (mats trained_store) = 3"
  "length (vecs trained_store) = 1"
  by (simp_all add: W0_of_def A_of_def B_of_def m_of_def trained_store_def example_object_def)

section \<open>The claims\<close>




text \<open>
  Claim C2 (the algorithm of the effective matrix).  For every built layer
  \<open>_get_effective_embeddings\<close> returns the matrix with the entries
  \<open>E[i,j] = combined[i,j] / norm[j] * m[j]\<close>, where \<open>delta = (A @ B) * s\<close>,
  \<open>combined = W0 + delta\<close>, \<open>norm[j] = max(sqrt(\<Sum>i. combined[i,j]^2), 1e-8)\<close> and
  \<open>s = alpha / rank\<close>.  Nothing relates the rank to \<open>R\<close> or \<open>C\<close>.
\<close>

theorem effective_matrix_algorithm:
  assumes "built_layer st self"
  shows "get_effective_embeddings_impl st self =
     Inr (spec_effective_matrix (W0_of st self) (A_of st self) (B_of st self) (m_of st self)
            (alpha (layers st ! self) / real_of_int (rank (layers st ! self))))"
  using get_effective_embeddings_impl_spec [OF assms] built_layer_shapes(8) [OF assms]
  by simp

theorem effective_matrix_algorithm_witness:
  "built_layer (example_built 2 ones ones) 0 \<and>
   get_effective_embeddings_impl (example_built 2 ones ones) 0 =
     Inr (spec_effective_matrix [[1], [1]] [[1, 1, 1], [1, 1, 1]] [[1], [1], [1]] [1] (1 / 3))"
proof -
  have h: "built_layer (example_built 2 ones ones) 0"
    by (simp add: example_built_ok)
  show ?thesis
    using h effective_matrix_algorithm [OF h]
    by (simp add: example_weights example_built_2 ones_def)
qed

text \<open>
  Claim C3 (operations before \<open>build\<close>), as the code has it.  On a layer that is not built,
  \<open>expand_vocabulary\<close> reports \<open>NotBuilt\<close> when \<open>new_vocab_size > input_dim\<close> and
  \<open>InvalidArgument\<close> otherwise, since the size is checked first; the store is unchanged.
  \<open>get_effective_embeddings\<close> and \<open>merge_weights\<close> have no check of their own: they fail in
  the first tensor operation on the absent weights and return no matrix.
\<close>

theorem not_built_rejection:
  assumes "unbuilt_layer st self"
  shows "expand_vocabulary st self n tok =
           Inl (if n \<le> input_dim (layers st ! self) then InvalidArgument else NotBuilt, st) \<and>
         get_effective_embeddings st self = Inl FrameworkError \<and>
         merge_weights st self = Inl FrameworkError"
  using assms
  by (simp add: unbuilt_layer_def Let_def expand_vocabulary_def get_effective_embeddings_def
      get_effective_embeddings_impl_def merge_weights_def)

theorem not_built_rejection_witness:
  "unbuilt_layer (example_unbuilt 2 ones ones) 0 \<and>
   expand_vocabulary (example_unbuilt 2 ones ones) 0 3 None =
     Inl (NotBuilt, example_unbuilt 2 ones ones) \<and>
   get_effective_embeddings (example_unbuilt 2 ones ones) 0 = Inl FrameworkError \<and>
   merge_weights (example_unbuilt 2 ones ones) 0 = Inl FrameworkError"
proof -
  have h: "unbuilt_layer (example_unbuilt 2 ones ones) 0"
    by (simp add: example_unbuilt_ok)
  show ?thesis
    using h not_built_rejection [OF h, of 3 None]
    by (simp add: example_unbuilt_def example_object_def)
qed

text \<open>
  A layer with 2 tokens that is not built: growing it to 1 token reports
  \<open>InvalidArgument\<close>, and the effective matrix and the merge fail in the tensor operation.
\<close>

theorem not_built_counterexample:
  "unbuilt_layer (example_unbuilt 2 ones ones) 0 \<and>
   expand_vocabulary (example_unbuilt 2 ones ones) 0 1 None =
     Inl (InvalidArgument, example_unbuilt 2 ones ones) \<and>
   InvalidArgument \<noteq> NotBuilt \<and>
   get_effective_embeddings (example_unbuilt 2 ones ones) 0 = Inl FrameworkError \<and>
   merge_weights (example_unbuilt 2 ones ones) 0 = Inl FrameworkError \<and>
   FrameworkError \<noteq> NotBuilt"
proof -
  let ?st = "example_unbuilt 2 ones ones"
  have "unbuilt_layer ?st 0"
    by (simp add: example_unbuilt_ok)
  moreover have "expand_vocabulary ?st 0 1 None = Inl (InvalidArgument, ?st)"
    by (rule expand_vocabulary_too_small) (simp add: example_unbuilt_def example_object_def)
  moreover have "get_effective_embeddings ?st 0 = Inl FrameworkError"
    by (simp add: get_effective_embeddings_def get_effective_embeddings_impl_def
        example_unbuilt_def example_object_def)
  moreover have "merge_weights ?st 0 = Inl FrameworkError"
    by (simp add: get_effective_embeddings_impl_def merge_weights_def
        example_unbuilt_def example_object_def)
  ultimately show ?thesis by simp
qed

text \<open>
  Claim C4 (growth preserves the prefix).  On a built layer with \<open>R\<close> rows,
  \<open>expand_vocabulary\<close> to \<open>R' > R\<close> rows returns a layer, given that a block supplied by the
  caller is an array of shape \<open>(R' - R, C)\<close>.  The layer returned is another object than
  the original, it is built, its \<open>input_dim\<close> is \<open>R'\<close>, its \<open>output_dim\<close> and rank are those of
  the original, and its \<open>W0\<close> and \<open>A\<close> have \<open>R'\<close> rows.  The first \<open>R\<close> rows of its \<open>W0\<close> and of
  its \<open>A\<close> are the \<open>W0\<close> and \<open>A\<close> of the original, and its \<open>B\<close> and \<open>m\<close> are those of the
  original, whether the new rows of \<open>W0\<close> come from the caller (\<open>tok = Some T\<close>) or from the
  initializer (\<open>tok = None\<close>); the rows after the first \<open>R\<close> of its \<open>W0\<close> are the caller's
  block when there is one.
\<close>

theorem growth_preserves_prefix:
  assumes "built_layer st self"
    and "input_dim (layers st ! self) < n"
    and "case tok of None \<Rightarrow> True
         | Some T \<Rightarrow> is_matrix (nat (n - input_dim (layers st ! self)))
                      (nat (output_dim (layers st ! self))) T"
  shows "\<exists>x st'. expand_vocabulary st self n tok = Inr (x, st') \<and>
           x \<noteq> self \<and> built_layer st' x \<and>
           input_dim (layers st' ! x) = n \<and>
           output_dim (layers st' ! x) = output_dim (layers st ! self) \<and>
           rank (layers st' ! x) = rank (layers st ! self) \<and>
           length (W0_of st' x) = nat n \<and> length (A_of st' x) = nat n \<and>
           take (nat (input_dim (layers st ! self))) (W0_of st' x) = W0_of st self \<and>
           take (nat (input_dim (layers st ! self))) (A_of st' x) = A_of st self \<and>
           B_of st' x = B_of st self \<and> m_of st' x = m_of st self \<and>
           (case tok of None \<Rightarrow> True
            | Some T \<Rightarrow> drop (nat (input_dim (layers st ! self))) (W0_of st' x) = T)"
proof -
  let ?L = "layers st ! self"
  have cfg: "0 < input_dim ?L" "0 < output_dim ?L" "self < length (layers st)"
    using assms(1) by (auto simp: built_layer_def valid_config_def Let_def)
  have tok: "case tok of None \<Rightarrow> True
         | Some T \<Rightarrow> shape T = (n - input_dim ?L, output_dim ?L)"
    using assms(2,3) cfg by (cases tok) (simp_all add: shape_is_matrix)
  note run = expand_vocabulary_success [OF assms(1,2) tok]
  obtain x st' where x: "expand_vocabulary st self n tok = Inr (x, st')" "built_layer st' x"
    using expand_vocabulary_built [OF assms] by blast
  have x_eq: "x = length (layers st)"
    and st': "st' = \<lparr>layers = layers st @ [expanded_object st self n],
           mats = mats st @ [W0_of st self @ new_rows st self n tok,
                             A_of st self @ new_lora_rows st self n tok,
                             B_of st self],
           vecs = vecs st @ [m_of st self],
           draws = (case tok of None \<Rightarrow> Suc (Suc (Suc (Suc (Suc (Suc (draws st))))))
                    | Some _ \<Rightarrow> Suc (Suc (Suc (Suc (Suc (draws st))))))\<rparr>"
    using x(1) run by simp_all
  have len: "length (W0_of st self) = nat (input_dim ?L)"
      "length (A_of st self) = nat (input_dim ?L)"
    using built_layer_shapes(1,2) [OF assms(1)] by (simp_all add: is_matrix_length)
  have w: "W0_of st' x = W0_of st self @ new_rows st self n tok"
      "A_of st' x = A_of st self @ new_lora_rows st self n tok"
      "B_of st' x = B_of st self" "m_of st' x = m_of st self"
      "layers st' ! x = expanded_object st self n"
    by (simp_all add: x_eq st' W0_of_def A_of_def B_of_def m_of_def expanded_object_def Let_def
        nth_append)
  have shp: "is_matrix (nat n) (nat (output_dim (layers st' ! x))) (W0_of st' x)"
      "is_matrix (nat n) (nat (rank (layers st' ! x))) (A_of st' x)"
    using built_layer_shapes(1,2) [OF x(2)] by (simp_all add: w(5) expanded_object_def Let_def)
  have new: "case tok of None \<Rightarrow> True
            | Some T \<Rightarrow> drop (nat (input_dim ?L)) (W0_of st' x) = T"
    by (cases tok) (simp_all add: w(1) len new_rows_def Let_def)
  have "x \<noteq> self" using cfg(3) x_eq by simp
  moreover have "input_dim (layers st' ! x) = n" "output_dim (layers st' ! x) = output_dim ?L"
      "rank (layers st' ! x) = rank ?L"
    by (simp_all add: w(5) expanded_object_def Let_def)
  moreover have "length (W0_of st' x) = nat n" "length (A_of st' x) = nat n"
    using shp by (simp_all add: is_matrix_length)
  moreover have "take (nat (input_dim ?L)) (W0_of st' x) = W0_of st self"
      "take (nat (input_dim ?L)) (A_of st' x) = A_of st self"
    by (simp_all add: w len)
  ultimately show ?thesis
    using x w(3,4) new by blast
qed

theorem growth_preserves_prefix_witness:
  "built_layer trained_store 0 \<and>
   input_dim (layers trained_store ! 0) < 3 \<and>
   is_matrix 1 1 ([[10]] :: matrix) \<and>
   (\<exists>x st'. expand_vocabulary trained_store 0 3 (Some [[10]]) = Inr (x, st') \<and>
      x \<noteq> 0 \<and> built_layer st' x \<and>
      input_dim (layers st' ! x) = 3 \<and> output_dim (layers st' ! x) = 1 \<and>
      rank (layers st' ! x) = 3 \<and>
      length (W0_of st' x) = 3 \<and> length (A_of st' x) = 3 \<and>
      take 2 (W0_of st' x) = [[5], [6]] \<and>
      take 2 (A_of st' x) = [[1, 2, 3], [4, 5, 6]] \<and>
      B_of st' x = [[7], [8], [9]] \<and> m_of st' x = [4] \<and>
      drop 2 (W0_of st' x) = [[10]])"
proof -
  have h1: "built_layer trained_store 0"
    by (rule trained_store_ok)
  have h2: "input_dim (layers trained_store ! 0) < 3"
    by (simp add: trained_store_weights)
  have m: "is_matrix 1 1 ([[10]] :: matrix)"
    by (simp add: is_matrix_def)
  have h3: "case Some ([[10]] :: matrix) of None \<Rightarrow> True
      | Some T \<Rightarrow> is_matrix (nat (3 - input_dim (layers trained_store ! 0)))
                   (nat (output_dim (layers trained_store ! 0))) T"
    using m by (simp add: trained_store_weights)
  show ?thesis
    using h1 h2 m growth_preserves_prefix [OF h1 h2 h3]
    by (simp add: trained_store_weights)
qed




text \<open>
  Claim C6 (zero magnitude), as the code has it.  In a dtype with the overflow threshold
  \<open>T\<close>, take weights of the shapes of a built layer whose magnitude vector is zero.  If
  every entry of the combined matrix \<open>W0 + (A @ B) * s\<close> is finite (nothing overflowed on
  the way to it), \<open>_get_effective_embeddings\<close> returns the zero matrix of shape \<open>(R, C)\<close>;
  the sums of the squares may overflow.
\<close>

theorem magnitude_zero:
  assumes "1 < T"
    and "is_matrix r c W0" "is_matrix r k A" "is_matrix k c B" "0 < k" "0 < r"
    and "all_finite T (fp_combined T W0 A B s)"
  shows "fp_effective_embedding_matrix T W0 A B (replicate c (Fin 0)) s =
         replicate r (replicate c (Fin 0))"
  using assms by (rule fp_magnitude_zero)

theorem magnitude_zero_witness:
  "1 < float32_overflow \<and>
   is_matrix 2 1 [[Fin (10 ^ 20)], [Fin 1]] \<and> is_matrix 2 1 [[Fin 1], [Fin 1]] \<and>
   is_matrix 1 1 [[Fin 2]] \<and>
   fp_combined float32_overflow [[Fin (10 ^ 20)], [Fin 1]] [[Fin 1], [Fin 1]] [[Fin 2]] (Fin 1) =
     [[Fin (10 ^ 20 + 2)], [Fin 3]] \<and>
   all_finite float32_overflow [[Fin (10 ^ 20 + 2)], [Fin 3]] \<and>
   fp_effective_embedding_matrix float32_overflow [[Fin (10 ^ 20)], [Fin 1]] [[Fin 1], [Fin 1]]
     [[Fin 2]] [Fin 0] (Fin 1) = [[Fin 0], [Fin 0]]"
proof -
  let ?T = float32_overflow
  have T: "1 < ?T" by (simp add: float32_overflow_def)
  have sh: "is_matrix 2 1 [[Fin (10 ^ 20)], [Fin 1]]" "is_matrix 2 1 [[Fin 1], [Fin 1]]"
      "is_matrix 1 1 [[Fin 2]]"
    by (simp_all add: is_matrix_def)
  have comb: "fp_combined ?T [[Fin (10 ^ 20)], [Fin 1]] [[Fin 1], [Fin 1]] [[Fin 2]] (Fin 1) =
      [[Fin (10 ^ 20 + 2)], [Fin 3]]"
    by (simp add: fp_combined_def fp_tensor_defs ncols_def round_fp_def float32_overflow_def)
  have fin: "all_finite ?T [[Fin (10 ^ 20 + 2)], [Fin 3]]"
    by (simp add: all_finite_def fp_finite_def float32_overflow_def)
  have h: "all_finite ?T
      (fp_combined ?T [[Fin (10 ^ 20)], [Fin 1]] [[Fin 1], [Fin 1]] [[Fin 2]] (Fin 1))"
    using fin by (simp only: comb)
  show ?thesis
    using T sh comb fin magnitude_zero [OF T sh _ _ h]
    by (simp add: numeral_2_eq_2)
qed

text \<open>
  Finite weights alone do not give the zero matrix.  In \<open>float32\<close>, with \<open>W0 = [[1]]\<close>,
  \<open>A = [[1e20]]\<close>, \<open>B = [[1e20]]\<close>, \<open>m = [0]\<close> and \<open>s = 1\<close>, the product \<open>A @ B\<close> overflows,
  the combined entry and the divisor are \<open>+inf\<close>, and the result is \<open>inf / inf * 0 = NaN\<close>.
\<close>

theorem magnitude_zero_overflow_counterexample:
  "all_finite float32_overflow [[Fin 1]] \<and> all_finite float32_overflow [[Fin (10 ^ 20)]] \<and>
   fp_finite float32_overflow (Fin 1) \<and>
   fp_effective_embedding_matrix float32_overflow [[Fin 1]] [[Fin (10 ^ 20)]] [[Fin (10 ^ 20)]]
     [Fin 0] (Fin 1) = [[NaN]]"
  by (simp add: fp_effective_embedding_matrix_def fp_tensor_defs ncols_def round_fp_def
      float32_overflow_def eps_def all_finite_def fp_finite_def)

text \<open>
  Claim C7 (a shape mismatch changes nothing).  On a built layer,
  \<open>load_pretrained_embeddings\<close> with a matrix whose shape is not \<open>(input_dim, output_dim)\<close>
  reports \<open>ShapeMismatch\<close> and leaves the store as it was.  \<open>expand_vocabulary\<close> with a
  caller's block whose shape is not \<open>(new_vocab_size - input_dim, output_dim)\<close> raises
  (\<open>ShapeMismatch\<close>, or \<open>InvalidArgument\<close> when the size check fires first), returns no layer,
  and every layer object and variable that existed before is as it was.
\<close>

theorem shape_mismatch_atomic:
  assumes "built_layer st self"
  shows "(shape P \<noteq> (input_dim (layers st ! self), output_dim (layers st ! self)) \<longrightarrow>
            load_pretrained_embeddings st self P = Inl (ShapeMismatch, st)) \<and>
         (shape T \<noteq> (n - input_dim (layers st ! self), output_dim (layers st ! self)) \<longrightarrow>
            (\<exists>e st'. expand_vocabulary st self n (Some T) = Inl (e, st') \<and>
               e = (if n \<le> input_dim (layers st ! self) then InvalidArgument
                    else ShapeMismatch) \<and>
               take (length (layers st)) (layers st') = layers st \<and>
               take (length (mats st)) (mats st') = mats st \<and>
               take (length (vecs st)) (vecs st') = vecs st))"
proof (intro conjI impI)
  assume "shape P \<noteq> (input_dim (layers st ! self), output_dim (layers st ! self))"
  then show "load_pretrained_embeddings st self P = Inl (ShapeMismatch, st)"
    using assms by (rule load_pretrained_embeddings_mismatch [rotated])
next
  assume T: "shape T \<noteq> (n - input_dim (layers st ! self), output_dim (layers st ! self))"
  show "\<exists>e st'. expand_vocabulary st self n (Some T) = Inl (e, st') \<and>
               e = (if n \<le> input_dim (layers st ! self) then InvalidArgument
                    else ShapeMismatch) \<and>
               take (length (layers st)) (layers st') = layers st \<and>
               take (length (mats st)) (mats st') = mats st \<and>
               take (length (vecs st)) (vecs st') = vecs st"
  proof (cases "input_dim (layers st ! self) < n")
    case True
    then show ?thesis
      using expand_vocabulary_mismatch [OF assms True T]
      by (simp add: store_with_fresh_layer_def Let_def)
  next
    case False
    then show ?thesis
      using expand_vocabulary_too_small [of n st self "Some T"] by simp
  qed
qed

theorem shape_mismatch_atomic_witness:
  "built_layer (example_built 2 ones ones) 0 \<and>
   shape [[1]] \<noteq> (2, 1) \<and>
   load_pretrained_embeddings (example_built 2 ones ones) 0 [[1]] =
     Inl (ShapeMismatch, example_built 2 ones ones) \<and>
   shape [[1, 1]] \<noteq> (3 - 2, 1) \<and>
   (\<exists>st'. expand_vocabulary (example_built 2 ones ones) 0 3 (Some [[1, 1]]) =
            Inl (ShapeMismatch, st') \<and>
          take 1 (layers st') = layers (example_built 2 ones ones) \<and>
          take 3 (mats st') = mats (example_built 2 ones ones) \<and>
          take 1 (vecs st') = vecs (example_built 2 ones ones))"
proof -
  let ?st = "example_built 2 ones ones"
  have h: "built_layer ?st 0"
    by (simp add: example_built_ok)
  have len: "length (layers ?st) = 1" "length (mats ?st) = 3" "length (vecs ?st) = 1"
    by (simp_all add: example_built_def example_unbuilt_def build_eq)
  have sh: "shape [[1]] \<noteq> (2, 1)" "shape [[1, 1]] \<noteq> (3 - 2, 1)"
    by (simp_all add: shape_def ncols_def)
  have dims: "input_dim (layers ?st ! 0) = 2" "output_dim (layers ?st ! 0) = 1"
    by (simp_all add: example_weights)
  show ?thesis
    using h sh shape_mismatch_atomic [OF h, of "[[1]]" "[[1, 1]]" 3]
    by (simp add: dims len)
qed

text \<open>
  Claim C8 (the floor of the divisor), as the code has it.  With the values of a
  floating-point dtype whose overflow threshold is \<open>T\<close>: no divisor is below \<open>1e-8\<close>, for
  any combined matrix \<open>M\<close> (a divisor is a finite number at least \<open>1e-8\<close>, or infinite, or
  NaN), so the normalization never divides by zero.  When the combined matrix
  \<open>W0 + (A @ B) * s\<close> and the column sums of its squares are finite (nothing has overflowed
  before the normalization) and \<open>m\<close> is finite, every divisor is a finite number at least
  \<open>1e-8\<close> and every entry of the result is finite: no NaN, no infinity.
\<close>

theorem epsilon_floor_safety:
  "list_all (list_all not_below_floor) (fp_column_norms T M) \<and>
   (1 < T \<and> is_matrix r c W0 \<and> is_matrix r k A \<and> is_matrix k c B \<and> length m = c \<and>
    0 < k \<and> 0 < r \<and>
    all_finite T (fp_combined T W0 A B s) \<and>
    all_finite T (fp_sum_axis0_keepdims T (fp_square T (fp_combined T W0 A B s))) \<and>
    list_all (fp_finite T) m \<longrightarrow>
      list_all (list_all floored) (fp_column_norms T (fp_combined T W0 A B s)) \<and>
      all_finite T (fp_effective_embedding_matrix T W0 A B m s))"
  using fp_column_norms_not_below_floor [of T M]
    epsilon_floor_no_overflow [of T r c W0 k A B m s]
  by blast

theorem epsilon_floor_safety_witness:
  "list_all (list_all not_below_floor) (fp_column_norms float32_overflow [[Fin 1]]) \<and>
   1 < float32_overflow \<and>
   is_matrix 1 1 [[Fin 0]] \<and> is_matrix 1 1 [[Fin 1]] \<and> length [Fin 2] = 1 \<and>
   all_finite float32_overflow (fp_combined float32_overflow [[Fin 0]] [[Fin 1]] [[Fin 1]] (Fin 1)) \<and>
   all_finite float32_overflow
     (fp_sum_axis0_keepdims float32_overflow
        (fp_square float32_overflow
           (fp_combined float32_overflow [[Fin 0]] [[Fin 1]] [[Fin 1]] (Fin 1)))) \<and>
   list_all (fp_finite float32_overflow) [Fin 2] \<and>
   list_all (list_all floored)
     (fp_column_norms float32_overflow
        (fp_combined float32_overflow [[Fin 0]] [[Fin 1]] [[Fin 1]] (Fin 1))) \<and>
   all_finite float32_overflow
     (fp_effective_embedding_matrix float32_overflow [[Fin 0]] [[Fin 1]] [[Fin 1]] [Fin 2] (Fin 1))"
proof -
  let ?T = float32_overflow
  have comb: "fp_combined ?T [[Fin 0]] [[Fin 1]] [[Fin 1]] (Fin 1) = [[Fin 1]]"
    by (simp add: fp_combined_def fp_tensor_defs ncols_def round_fp_def float32_overflow_def)
  have h: "1 < ?T" "is_matrix 1 1 [[Fin 0]]" "is_matrix 1 1 [[Fin 1]]" "length [Fin 2] = 1"
      "all_finite ?T (fp_combined ?T [[Fin 0]] [[Fin 1]] [[Fin 1]] (Fin 1))"
      "all_finite ?T (fp_sum_axis0_keepdims ?T
         (fp_square ?T (fp_combined ?T [[Fin 0]] [[Fin 1]] [[Fin 1]] (Fin 1))))"
      "list_all (fp_finite ?T) [Fin 2]"
    unfolding comb
    by (simp_all add: is_matrix_def all_finite_def fp_finite_def fp_tensor_defs ncols_def
        round_fp_def float32_overflow_def)
  show ?thesis
    using h epsilon_floor_safety [of ?T "[[Fin 1]]" 1 1 "[[Fin 0]]" 1 "[[Fin 1]]" "[[Fin 1]]"
        "[Fin 2]" "Fin 1"]
    by simp
qed

text \<open>
  Finite inputs alone do not keep the result finite.  In \<open>float32\<close>, with \<open>W0 = [[1]]\<close>,
  \<open>A = [[1e20]]\<close>, \<open>B = [[1e20]]\<close>, \<open>m = [1]\<close> and \<open>s = 1\<close>, the product \<open>A @ B\<close> overflows,
  the combined entry and the divisor are \<open>+inf\<close>, and the result is \<open>inf / inf = NaN\<close>.
\<close>

theorem epsilon_floor_overflow_counterexample:
  "all_finite float32_overflow [[Fin 1]] \<and> all_finite float32_overflow [[Fin (10 ^ 20)]] \<and>
   list_all (fp_finite float32_overflow) [Fin 1] \<and> fp_finite float32_overflow (Fin 1) \<and>
   fp_column_norms float32_overflow
     (fp_combined float32_overflow [[Fin 1]] [[Fin (10 ^ 20)]] [[Fin (10 ^ 20)]] (Fin 1)) =
     [[PInf]] \<and>
   fp_effective_embedding_matrix float32_overflow [[Fin 1]] [[Fin (10 ^ 20)]] [[Fin (10 ^ 20)]]
     [Fin 1] (Fin 1) = [[NaN]]"
  by (simp add: fp_effective_embedding_matrix_def fp_combined_def fp_column_norms_def
      fp_tensor_defs ncols_def round_fp_def float32_overflow_def eps_def all_finite_def
      fp_finite_def)

text \<open>
  Claim C9 (growth does not touch the original).  On a built layer, \<open>expand_vocabulary\<close>
  to a larger size (a block supplied by the caller being an array of the expected shape)
  returns a new object, which is a built layer with \<open>input_dim = new_vocab_size\<close>: its four
  weights are variables that did not exist before, the three matrices distinct, of the
  shapes of the new configuration.  The original object (its configuration and its
  references) and every variable that existed before are unchanged, so the original is
  still a built layer with the same \<open>W0\<close>, \<open>A\<close>, \<open>B\<close> and \<open>m\<close>.
\<close>

theorem growth_immutable:
  assumes "built_layer st self"
    and "input_dim (layers st ! self) < n"
    and "case tok of None \<Rightarrow> True
         | Some T \<Rightarrow> is_matrix (nat (n - input_dim (layers st ! self)))
                      (nat (output_dim (layers st ! self))) T"
  shows "\<exists>x st'. expand_vocabulary st self n tok = Inr (x, st') \<and>
         length (layers st) \<le> x \<and> built_layer st' x \<and>
         input_dim (layers st' ! x) = n \<and>
         (case embeddings (layers st' ! x) of None \<Rightarrow> False | Some e \<Rightarrow> length (mats st) \<le> e) \<and>
         (case lora_a (layers st' ! x) of None \<Rightarrow> False | Some a \<Rightarrow> length (mats st) \<le> a) \<and>
         (case lora_b (layers st' ! x) of None \<Rightarrow> False | Some b \<Rightarrow> length (mats st) \<le> b) \<and>
         (case magnitude (layers st' ! x) of None \<Rightarrow> False | Some g \<Rightarrow> length (vecs st) \<le> g) \<and>
         distinct [embeddings (layers st' ! x), lora_a (layers st' ! x), lora_b (layers st' ! x)] \<and>
         take (length (layers st)) (layers st') = layers st \<and>
         take (length (mats st)) (mats st') = mats st \<and>
         take (length (vecs st)) (vecs st') = vecs st \<and>
         layers st' ! self = layers st ! self \<and> built_layer st' self \<and>
         W0_of st' self = W0_of st self \<and> A_of st' self = A_of st self \<and>
         B_of st' self = B_of st self \<and> m_of st' self = m_of st self"
proof -
  let ?L = "layers st ! self"
  have cfg: "0 < input_dim ?L" "0 < output_dim ?L"
    using assms(1) by (auto simp: built_layer_def valid_config_def Let_def)
  have tok: "case tok of None \<Rightarrow> True
         | Some T \<Rightarrow> shape T = (n - input_dim ?L, output_dim ?L)"
    using assms(2,3) cfg by (cases tok) (simp_all add: shape_is_matrix)
  note run = expand_vocabulary_success [OF assms(1,2) tok]
  obtain x st' where x: "expand_vocabulary st self n tok = Inr (x, st')" "built_layer st' x"
    using expand_vocabulary_built [OF assms] by blast
  have x_eq: "x = length (layers st)"
    and st': "st' = \<lparr>layers = layers st @ [expanded_object st self n],
           mats = mats st @ [W0_of st self @ new_rows st self n tok,
                             A_of st self @ new_lora_rows st self n tok,
                             B_of st self],
           vecs = vecs st @ [m_of st self],
           draws = (case tok of None \<Rightarrow> Suc (Suc (Suc (Suc (Suc (Suc (draws st))))))
                    | Some _ \<Rightarrow> Suc (Suc (Suc (Suc (Suc (draws st))))))\<rparr>"
    using x(1) run by simp_all
  obtain e a b g where refs: "embeddings ?L = Some e"
      "lora_a ?L = Some a" "lora_b ?L = Some b"
      "magnitude ?L = Some g" "e < length (mats st)" "a < length (mats st)"
      "b < length (mats st)" "g < length (vecs st)" "self < length (layers st)"
    using assms(1) by (auto simp: built_layer_def Let_def split: option.splits)
  have old: "layers st' ! self = ?L" "W0_of st' self = W0_of st self"
      "A_of st' self = A_of st self" "B_of st' self = B_of st self" "m_of st' self = m_of st self"
    using refs by (simp_all add: st' W0_of_def A_of_def B_of_def m_of_def nth_append)
  have still: "built_layer st' self"
    using assms(1) refs
    by (simp add: built_layer_def Let_def st' nth_append)
  have new: "layers st' ! length (layers st) = expanded_object st self n"
    by (simp add: st')
  have frame: "take (length (layers st)) (layers st') = layers st"
      "take (length (mats st)) (mats st') = mats st"
      "take (length (vecs st)) (vecs st') = vecs st"
    by (simp_all add: st')
  show ?thesis
    using x still old frame
    by (simp add: new x_eq expanded_object_def Let_def)
qed

theorem growth_immutable_witness:
  "built_layer trained_store 0 \<and>
   input_dim (layers trained_store ! 0) < 3 \<and>
   (\<exists>x st'. expand_vocabulary trained_store 0 3 None = Inr (x, st') \<and>
      1 \<le> x \<and> built_layer st' x \<and> input_dim (layers st' ! x) = 3 \<and>
      (case embeddings (layers st' ! x) of None \<Rightarrow> False | Some e \<Rightarrow> 3 \<le> e) \<and>
      (case lora_a (layers st' ! x) of None \<Rightarrow> False | Some a \<Rightarrow> 3 \<le> a) \<and>
      (case lora_b (layers st' ! x) of None \<Rightarrow> False | Some b \<Rightarrow> 3 \<le> b) \<and>
      (case magnitude (layers st' ! x) of None \<Rightarrow> False | Some g \<Rightarrow> 1 \<le> g) \<and>
      distinct [embeddings (layers st' ! x), lora_a (layers st' ! x), lora_b (layers st' ! x)] \<and>
      take 1 (layers st') = layers trained_store \<and>
      take 3 (mats st') = mats trained_store \<and>
      take 1 (vecs st') = vecs trained_store \<and>
      layers st' ! 0 = layers trained_store ! 0 \<and> built_layer st' 0 \<and>
      W0_of st' 0 = [[5], [6]] \<and> A_of st' 0 = [[1, 2, 3], [4, 5, 6]] \<and>
      B_of st' 0 = [[7], [8], [9]] \<and> m_of st' 0 = [4])"
proof -
  have h1: "built_layer trained_store 0"
    by (rule trained_store_ok)
  have h2: "input_dim (layers trained_store ! 0) < 3"
    by (simp add: trained_store_weights)
  show ?thesis
    using h1 h2 growth_immutable [OF h1 h2, of None]
    by (simp add: trained_store_weights cong: option.case_cong)
qed

text \<open>
  Claim C10 (the \<open>sparse\<close> flag changes nothing).  On the same store and the same input,
  \<open>call\<close> on a layer with \<open>sparse = True\<close> returns what it returns with \<open>sparse = False\<close>:
  with either value of the flag it is \<open>ops.take\<close> of the effective matrix at the indices.
\<close>

theorem sparse_flag_noop:
  "call (with_sparse st self True) self inputs = call (with_sparse st self False) self inputs \<and>
   call (with_sparse st self b) self inputs =
     (case get_effective_embeddings_impl st self of
        Inl e \<Rightarrow> Inl e
      | Inr E \<Rightarrow> take_axis0 E (as_indices inputs))"
proof -
  have "call (with_sparse st self c) self inputs =
     (case get_effective_embeddings_impl st self of
        Inl e \<Rightarrow> Inl e
      | Inr E \<Rightarrow> take_axis0 E (as_indices inputs))" for c
    by (simp only: call_take_axis0 get_effective_embeddings_impl_with_sparse)
  then show ?thesis by simp
qed

end
